theory Spec2Isabelle
  imports Complex_Main
begin

section \<open>Python values and exceptions\<close>

text \<open>
  The exceptions the modelled code can raise. Every function of the source that can raise
  returns a sum, with \<open>Inl\<close> carrying the exception.
\<close>

datatype py_error =
    ValueError | TypeError | AttributeError | IndexError | KeyError
  | ZeroDivisionError | RuntimeError

text \<open>
  Values stored in the dictionaries of the source (\<open>agent_state\<close>, \<open>info\<close>, the statistics).
  Python floats are modelled as real numbers: rounding, infinities and NaN are outside the model.
\<close>

datatype pyval =
    PyNone | PyStr string | PyInt int | PyFloat real | PyBool bool
  | PyDict "(string \<times> real) list"

text \<open>A dictionary is an association list in insertion order; \<open>d.get(k, default)\<close>:\<close>

definition dict_get :: "(string \<times> 'v) list \<Rightarrow> string \<Rightarrow> 'v \<Rightarrow> 'v" where
  "dict_get d k dflt = (case map_of d k of None \<Rightarrow> dflt | Some v \<Rightarrow> v)"

text \<open>\<open>d[k]\<close>, raising \<open>KeyError\<close> on a missing key:\<close>

definition dict_index :: "(string \<times> 'v) list \<Rightarrow> string \<Rightarrow> py_error + 'v" where
  "dict_index d k = (case map_of d k of None \<Rightarrow> Inl KeyError | Some v \<Rightarrow> Inr v)"

text \<open>Sequencing of computations that may raise.\<close>

definition bind_err :: "'e + 'a \<Rightarrow> ('a \<Rightarrow> 'e + 'b) \<Rightarrow> 'e + 'b" where
  "bind_err m f = (case m of Inl e \<Rightarrow> Inl e | Inr x \<Rightarrow> f x)"

text \<open>Division of Python floats: a zero divisor raises.\<close>

definition py_div :: "real \<Rightarrow> real \<Rightarrow> py_error + real" where
  "py_div a b = (if b = 0 then Inl ZeroDivisionError else Inr (a / b))"

section \<open>ReplayBuffer (rl\_agent.py)\<close>

text \<open>
  A transition \<open>(state, action, reward, next_state, done)\<close>. The buffer is a
  \<open>collections.deque(maxlen=capacity)\<close>: \<open>append\<close> adds on the right and, when the
  length then exceeds \<open>maxlen\<close>, drops one element on the left. A negative \<open>maxlen\<close> is
  refused by the \<open>deque\<close> constructor with \<open>ValueError\<close>.
\<close>

type_synonym transition = "real list \<times> int \<times> real \<times> real list \<times> bool"

record replay_buffer =
  maxlen :: nat
  buffer :: "transition list"

definition deque_append :: "nat \<Rightarrow> 'a list \<Rightarrow> 'a \<Rightarrow> 'a list" where
  "deque_append ml d x = (let d' = d @ [x] in if ml < length d' then tl d' else d')"

definition ReplayBuffer_init :: "int \<Rightarrow> py_error + replay_buffer" where
  "ReplayBuffer_init capacity =
     (if capacity < 0 then Inl ValueError
      else Inr \<lparr>maxlen = nat capacity, buffer = []\<rparr>)"

definition push :: "replay_buffer \<Rightarrow> real list \<Rightarrow> int \<Rightarrow> real \<Rightarrow> real list \<Rightarrow> bool \<Rightarrow> replay_buffer" where
  "push rb state action reward next_state done =
     rb\<lparr>buffer := deque_append (maxlen rb) (buffer rb) (state, action, reward, next_state, done)\<rparr>"

definition len_buffer :: "replay_buffer \<Rightarrow> nat" where
  "len_buffer rb = length (buffer rb)"

text \<open>A sequence of \<open>push\<close> calls, one per transition of the list, in order.\<close>

fun push_all :: "replay_buffer \<Rightarrow> transition list \<Rightarrow> replay_buffer" where
  "push_all rb [] = rb"
| "push_all rb ((s, a, r, s', d) # ts) = push_all (push rb s a r s' d) ts"

section \<open>RewardCalculator (rl\_reward.py)\<close>

record reward_calc =
  profit_reward :: real
  loss_penalty :: real
  transaction_cost :: real
  risk_penalty_weight :: real

text \<open>The constructor's default arguments.\<close>

definition RewardCalculator_default :: reward_calc where
  "RewardCalculator_default =
     \<lparr>profit_reward = 1, loss_penalty = - 1, transaction_cost = 1 / 100,
      risk_penalty_weight = 1 / 10\<rparr>"

text \<open>
  The base reward of \<open>calculate_reward\<close>: the profit reward when the profit or loss
  \<open>pnl\<close> is \<open>> 0\<close>, the loss penalty in every other case.
\<close>

definition base_reward :: "reward_calc \<Rightarrow> real \<Rightarrow> real" where
  "base_reward rc pnl = (if pnl > 0 then profit_reward rc else loss_penalty rc)"

text \<open>
  The part of \<open>calculate_reward\<close> after \<open>pnl\<close> is known: base reward, scaling by the
  size of the move, transaction cost, optional risk penalty.
\<close>

definition reward_of_pnl :: "reward_calc \<Rightarrow> real \<Rightarrow> real option \<Rightarrow> real" where
  "reward_of_pnl rc pnl volatility =
     (let reward = base_reward rc pnl;
          reward = reward * (\<bar>pnl\<bar> * 10);
          reward = reward - transaction_cost rc
      in case volatility of
           None \<Rightarrow> reward
         | Some v \<Rightarrow> reward - v * risk_penalty_weight rc)"

definition calculate_reward ::
  "reward_calc \<Rightarrow> string \<Rightarrow> real \<Rightarrow> real \<Rightarrow> real \<Rightarrow> real option \<Rightarrow> py_error + real" where
  "calculate_reward rc action entry_price exit_price position_size volatility =
     (if action = ''HOLD'' then Inr 0
      else if action = ''BUY'' then
        bind_err (py_div (exit_price - entry_price) entry_price)
          (\<lambda>pnl. Inr (reward_of_pnl rc pnl volatility))
      else if action = ''SELL'' then
        bind_err (py_div (entry_price - exit_price) entry_price)
          (\<lambda>pnl. Inr (reward_of_pnl rc pnl volatility))
      else Inr 0)"

text \<open>\<open>greeks\<close> is an optional dictionary; \<open>if greeks:\<close> holds for a non-empty one.\<close>

definition calculate_options_reward ::
  "reward_calc \<Rightarrow> string \<Rightarrow> string \<Rightarrow> real \<Rightarrow> real \<Rightarrow> real \<Rightarrow> (string \<times> real) list option \<Rightarrow> real" where
  "calculate_options_reward rc action strategy premium pnl max_loss greeks =
     (let reward = (if pnl > 0 then profit_reward rc else loss_penalty rc);
          reward = (if premium > 0 then reward * (\<bar>pnl\<bar> / premium) else reward);
          reward = (if max_loss > 0 then reward * (1 + \<bar>pnl\<bar> / max_loss) else reward);
          reward =
            (case greeks of
               None \<Rightarrow> reward
             | Some g \<Rightarrow>
                 if g = [] then reward
                 else
                   (let reward =
                          (case map_of g ''theta'' of
                             Some th \<Rightarrow> if th < 0 then reward - \<bar>th\<bar> * (1 / 10) else reward
                           | None \<Rightarrow> reward)
                    in case map_of g ''gamma'' of
                         Some ga \<Rightarrow> reward - \<bar>ga\<bar> * (5 / 100)
                       | None \<Rightarrow> reward))
      in reward - transaction_cost rc)"

text \<open>\<open>numpy.mean\<close> and \<open>numpy.std\<close> (the population standard deviation) of a non-empty array.\<close>

definition np_mean :: "real list \<Rightarrow> real" where
  "np_mean xs = sum_list xs / real (length xs)"

definition np_std :: "real list \<Rightarrow> real" where
  "np_std xs = sqrt (np_mean (map (\<lambda>x. (x - np_mean xs)\<^sup>2) xs))"

definition calculate_sharpe_ratio_reward :: "real list \<Rightarrow> real \<Rightarrow> real" where
  "calculate_sharpe_ratio_reward returns risk_free_rate =
     (if length returns = 0 then 0
      else
        (let mean_return = np_mean returns; std_return = np_std returns
         in if std_return = 0 then 0 else (mean_return - risk_free_rate) / std_return))"

section \<open>StateEncoder (rl\_state\_encoder.py)\<close>

subsection \<open>Strings\<close>

text \<open>
  Report texts are modelled as ASCII strings: \<open>str.lower\<close> maps \<open>A\<close>..\<open>Z\<close> to
  \<open>a\<close>..\<open>z\<close>, \<open>\d\<close> is \<open>0\<close>..\<open>9\<close>, and \<open>\s\<close> is the ASCII white space of Python's
  \<open>str\<close> patterns (codes 9 to 13 and 28 to 32).
\<close>

definition is_upper :: "char \<Rightarrow> bool" where
  "is_upper c = (65 \<le> (of_char c :: nat) \<and> (of_char c :: nat) \<le> 90)"

definition is_digit :: "char \<Rightarrow> bool" where
  "is_digit c = (48 \<le> (of_char c :: nat) \<and> (of_char c :: nat) \<le> 57)"

definition is_space :: "char \<Rightarrow> bool" where
  "is_space c = (let n = (of_char c :: nat) in (9 \<le> n \<and> n \<le> 13) \<or> (28 \<le> n \<and> n \<le> 32))"

definition lower_char :: "char \<Rightarrow> char" where
  "lower_char c = (if is_upper c then char_of (of_char c + (32 :: nat)) else c)"

definition str_lower :: "string \<Rightarrow> string" where
  "str_lower s = map lower_char s"

definition startswith :: "string \<Rightarrow> string \<Rightarrow> bool" where
  "startswith s sub = (take (length sub) s = sub)"

text \<open>\<open>sub in s\<close>:\<close>

fun str_contains :: "string \<Rightarrow> string \<Rightarrow> bool" where
  "str_contains sub [] = (sub = [])"
| "str_contains sub (c # cs) = (startswith (c # cs) sub \<or> str_contains sub cs)"

text \<open>\<open>s.count(sub)\<close>, the number of non-overlapping occurrences from the left:\<close>

function str_count :: "string \<Rightarrow> string \<Rightarrow> nat" where
  "str_count s sub =
     (if sub = [] then Suc (length s)
      else if s = [] then 0
      else if startswith s sub then Suc (str_count (drop (length sub) s) sub)
      else str_count (tl s) sub)"
  by pat_completeness auto
termination
  by (relation "measure (\<lambda>(s, sub). length s)") auto

declare str_count.simps [simp del]

subsection \<open>The regular expressions of the extractors\<close>

text \<open>
  Every pattern of the source is a sequence of single-character atoms, each with a
  quantifier, and one capture group over a contiguous part of the sequence. An element is
  an atom, its quantifier, and whether it lies inside the group. All searches are made with
  \<open>re.IGNORECASE\<close>, so literals are compared up to case.
\<close>

datatype atom = Ch char | AnyOf "char list" | Digit | ColonOrSpace

datatype quant = One | Opt | Star | Plus

type_synonym elem = "atom \<times> quant \<times> bool"

fun accepts :: "atom \<Rightarrow> char \<Rightarrow> bool" where
  "accepts (Ch x) c = (lower_char c = lower_char x)"
| "accepts (AnyOf xs) c = (lower_char c \<in> set (map lower_char xs))"
| "accepts Digit c = is_digit c"
| "accepts ColonOrSpace c = (c = CHR '':'' \<or> is_space c)"

definition keep :: "bool \<Rightarrow> char \<Rightarrow> string \<Rightarrow> string" where
  "keep g c r = (if g then c # r else r)"

text \<open>
  Matching at the start of the text, greedy with backtracking as \<open>re\<close> does it: a
  quantified atom first takes as many characters as it can and gives them back one at a time
  when the rest of the pattern fails. The result is the text of the group.
\<close>

fun rmatch :: "elem list \<Rightarrow> string \<Rightarrow> string option" where
  "rmatch [] s = Some []"
| "rmatch ((a, One, g) # ps) s =
     (case s of [] \<Rightarrow> None
      | c # cs \<Rightarrow> if accepts a c then map_option (keep g c) (rmatch ps cs) else None)"
| "rmatch ((a, Opt, g) # ps) s =
     (case s of [] \<Rightarrow> rmatch ps []
      | c # cs \<Rightarrow>
          if accepts a c
          then (case rmatch ps cs of Some r \<Rightarrow> Some (keep g c r) | None \<Rightarrow> rmatch ps (c # cs))
          else rmatch ps (c # cs))"
| "rmatch ((a, Star, g) # ps) s =
     (case s of [] \<Rightarrow> rmatch ps []
      | c # cs \<Rightarrow>
          if accepts a c
          then (case rmatch ((a, Star, g) # ps) cs of
                  Some r \<Rightarrow> Some (keep g c r) | None \<Rightarrow> rmatch ps (c # cs))
          else rmatch ps (c # cs))"
| "rmatch ((a, Plus, g) # ps) s =
     (case s of [] \<Rightarrow> None
      | c # cs \<Rightarrow>
          if accepts a c then map_option (keep g c) (rmatch ((a, Star, g) # ps) cs) else None)"

text \<open>\<open>re.search\<close>: the match at the leftmost position that has one; \<open>group(1)\<close> of it.\<close>

fun re_search :: "elem list \<Rightarrow> string \<Rightarrow> string option" where
  "re_search p [] = rmatch p []"
| "re_search p (c # cs) =
     (case rmatch p (c # cs) of Some g \<Rightarrow> Some g | None \<Rightarrow> re_search p cs)"

definition lit :: "string \<Rightarrow> elem list" where
  "lit s = map (\<lambda>c. (Ch c, One, False)) s"

text \<open>\<open>[:\s]+\<close>, \<open>(\d+\.?\d*)\<close> and \<open>(-?\d+\.?\d*)\<close>:\<close>

definition sep :: "elem list" where
  "sep = [(ColonOrSpace, Plus, False)]"

definition num :: "elem list" where
  "num = [(Digit, Plus, True), (Ch CHR ''.'', Opt, True), (Digit, Star, True)]"

definition signed_num :: "elem list" where
  "signed_num = (Ch CHR ''-'', Opt, True) # num"

subsection \<open>\<open>float\<close> of a captured text\<close>

text \<open>
  \<open>float(s)\<close> on the texts the groups above can capture: an optional minus sign, digits,
  and optionally a point followed by digits. Any other text is answered with \<open>ValueError\<close>;
  the extractors never pass one.
\<close>

definition digit_val :: "char \<Rightarrow> nat" where
  "digit_val c = of_char c - 48"

definition dec :: "string \<Rightarrow> nat" where
  "dec ds = foldl (\<lambda>n c. 10 * n + digit_val c) 0 ds"

definition float_unsigned :: "string \<Rightarrow> py_error + real" where
  "float_unsigned s =
     (let ip = takeWhile is_digit s; r = dropWhile is_digit s
      in if ip = [] then Inl ValueError
         else case r of
                [] \<Rightarrow> Inr (real (dec ip))
              | c # f \<Rightarrow>
                  if c = CHR ''.'' \<and> list_all is_digit f
                  then Inr (real (dec ip) + real (dec f) / 10 ^ length f)
                  else Inl ValueError)"

definition py_float :: "string \<Rightarrow> py_error + real" where
  "py_float s =
     (case s of
        [] \<Rightarrow> Inl ValueError
      | c # t \<Rightarrow>
          if c = CHR ''-'' then bind_err (float_unsigned t) (\<lambda>v. Inr (- v))
          else float_unsigned s)"

subsection \<open>Feature extractors\<close>

text \<open>
  The loop shared by the extractors: for each named pattern in dictionary order, the
  value of the first match (adjusted by \<open>post\<close>), or \<open>0.0\<close> when there is no match.
\<close>

fun extract_loop ::
  "(string \<Rightarrow> real \<Rightarrow> real) \<Rightarrow> (string \<times> elem list) list \<Rightarrow> string \<Rightarrow> py_error + real list" where
  "extract_loop post [] report = Inr []"
| "extract_loop post ((name, pattern) # rest) report =
     (case re_search pattern report of
        Some g \<Rightarrow>
          bind_err (py_float g) (\<lambda>v.
          bind_err (extract_loop post rest report) (\<lambda>fs. Inr (post name v # fs)))
      | None \<Rightarrow> bind_err (extract_loop post rest report) (\<lambda>fs. Inr (0 # fs)))"

definition indicators :: "(string \<times> elem list) list" where
  "indicators =
     [(''rsi'', lit ''RSI'' @ sep @ num),
      (''macd'', lit ''MACD'' @ sep @ signed_num),
      (''sma_50'', lit ''50'' @ [(AnyOf ''- '', One, False)] @ lit ''SMA'' @ sep @ num),
      (''sma_200'', lit ''200'' @ [(AnyOf ''- '', One, False)] @ lit ''SMA'' @ sep @ num),
      (''ema_10'', lit ''10'' @ [(AnyOf ''- '', One, False)] @ lit ''EMA'' @ sep @ num),
      (''volume'', lit ''volume'' @ sep @ num),
      (''volatility'', lit ''volatility'' @ sep @ num),
      (''atr'', lit ''ATR'' @ sep @ num)]"

text \<open>
  A report that is not a \<open>str\<close> (for instance \<open>None\<close>) makes \<open>re.search\<close> raise
  \<open>TypeError\<close>, and \<open>report.lower()\<close> raise \<open>AttributeError\<close>.
\<close>

definition extract_technical_features :: "pyval \<Rightarrow> py_error + real list" where
  "extract_technical_features report =
     (case report of
        PyStr s \<Rightarrow>
          bind_err (extract_loop (\<lambda>name v. if name = ''rsi'' then v / 100 else v) indicators s)
            (\<lambda>features.
               Inr (features @
                 [if str_contains ''bullish'' (str_lower s) then 1
                  else if str_contains ''bearish'' (str_lower s) then - 1
                  else 0]))
      | _ \<Rightarrow> Inl TypeError)"

definition metrics :: "(string \<times> elem list) list" where
  "metrics =
     [(''pe_ratio'', lit ''P/E'' @ sep @ num),
      (''eps'', lit ''EPS'' @ sep @ num),
      (''revenue'', lit ''revenue'' @ sep @ num),
      (''profit_margin'', lit ''profit margin'' @ sep @ num),
      (''debt_ratio'', lit ''debt'' @ sep @ num),
      (''roe'', lit ''ROE'' @ sep @ num)]"

definition extract_fundamental_features :: "pyval \<Rightarrow> py_error + real list" where
  "extract_fundamental_features report =
     (case report of
        PyStr s \<Rightarrow> extract_loop (\<lambda>name v. v) metrics s
      | _ \<Rightarrow> Inl TypeError)"

definition extract_news_features :: "pyval \<Rightarrow> py_error + real list" where
  "extract_news_features report =
     (case report of
        PyStr s \<Rightarrow>
          (let l = str_lower s;
               sentiment =
                 (if str_contains ''positive'' l then 5 / 10
                  else if str_contains ''very positive'' l \<or> str_contains ''bullish'' l then 1
                  else if str_contains ''negative'' l then - (5 / 10)
                  else if str_contains ''very negative'' l \<or> str_contains ''bearish'' l then - 1
                  else 0);
               news_count = str_count l ''news'' + str_count l ''article'';
               impact =
                 (if str_contains ''significant'' l \<or> str_contains ''major'' l then 1
                  else if str_contains ''minor'' l \<or> str_contains ''small'' l then 3 / 10
                  else 5 / 10)
           in Inr [sentiment, min (real news_count / 10) 1, impact])
      | _ \<Rightarrow> Inl AttributeError)"

definition extract_sentiment_features :: "pyval \<Rightarrow> py_error + real list" where
  "extract_sentiment_features report =
     (case report of
        PyStr s \<Rightarrow>
          (let l = str_lower s
           in Inr [if str_contains ''bullish'' l then 7 / 10
                   else if str_contains ''bearish'' l then - (7 / 10)
                   else 0,
                   if str_contains ''strong'' l then 1
                   else if str_contains ''weak'' l then 3 / 10
                   else 5 / 10])
      | _ \<Rightarrow> Inl AttributeError)"

definition greeks_patterns :: "(string \<times> elem list) list" where
  "greeks_patterns =
     [(''delta'', lit ''Delta'' @ sep @ signed_num),
      (''gamma'', lit ''Gamma'' @ sep @ num),
      (''theta'', lit ''Theta'' @ sep @ signed_num),
      (''vega'', lit ''Vega'' @ sep @ num),
      (''rho'', lit ''Rho'' @ sep @ signed_num)]"

definition strategy_encoding :: "(string \<times> real) list" where
  "strategy_encoding =
     [(''call'', 1 / 10), (''put'', 2 / 10), (''spread'', 3 / 10), (''straddle'', 4 / 10),
      (''strangle'', 5 / 10), (''iron_condor'', 6 / 10), (''covered_call'', 7 / 10)]"

text \<open>The strategy loop: the value of the first strategy name found in the text.\<close>

fun strategy_loop :: "(string \<times> real) list \<Rightarrow> string \<Rightarrow> real" where
  "strategy_loop [] l = 0"
| "strategy_loop ((strategy, v) # rest) l =
     (if str_contains strategy l then v else strategy_loop rest l)"

definition extract_options_features :: "pyval \<Rightarrow> py_error + real list" where
  "extract_options_features report =
     (case report of
        PyStr s \<Rightarrow>
          bind_err (extract_loop (\<lambda>name v. v) greeks_patterns s) (\<lambda>features.
          bind_err
            (case re_search (lit ''IV'' @ sep @ num @ [(Ch CHR ''%'', Opt, False)]) s of
               Some g \<Rightarrow> bind_err (py_float g) (\<lambda>v. Inr (v / 100))
             | None \<Rightarrow> Inr 0) (\<lambda>iv.
          bind_err
            (case re_search (lit ''Put/Call'' @ sep @ num) s of
               Some g \<Rightarrow> py_float g
             | None \<Rightarrow> Inr 1) (\<lambda>pc.
          Inr (features @ [iv, pc, strategy_loop strategy_encoding (str_lower s)]))))
      | _ \<Rightarrow> Inl TypeError)"

subsection \<open>encode and decode\_action\<close>

record encoder =
  state_dim :: int

text \<open>
  \<open>feature_extractors\<close> in dictionary order, each with the key under which \<open>encode\<close> looks
  its report up.
\<close>

definition feature_extractors :: "(string \<times> (pyval \<Rightarrow> py_error + real list)) list" where
  "feature_extractors =
     [(''market_report'', extract_technical_features),
      (''fundamentals_report'', extract_fundamental_features),
      (''news_report'', extract_news_features),
      (''sentiment_report'', extract_sentiment_features),
      (''options_report'', extract_options_features)]"

fun extract_all ::
  "(string \<times> (pyval \<Rightarrow> py_error + real list)) list \<Rightarrow> (string \<times> pyval) list \<Rightarrow> py_error + real list" where
  "extract_all [] agent_state = Inr []"
| "extract_all ((report_key, extractor) # rest) agent_state =
     bind_err (extractor (dict_get agent_state report_key (PyStr ''''))) (\<lambda>extracted.
     bind_err (extract_all rest agent_state) (\<lambda>features. Inr (extracted @ features)))"

text \<open>\<open>xs[:k]\<close>; a negative \<open>k\<close> counts from the end.\<close>

definition slice_to :: "'a list \<Rightarrow> int \<Rightarrow> 'a list" where
  "slice_to xs k = (if k < 0 then take (nat (int (length xs) + k)) xs else take (nat k) xs)"

definition pad_or_truncate :: "int \<Rightarrow> real list \<Rightarrow> real list" where
  "pad_or_truncate d features =
     (if int (length features) < d
      then features @ replicate (nat (d - int (length features))) 0
      else if int (length features) > d then slice_to features d
      else features)"

definition encode :: "encoder \<Rightarrow> (string \<times> pyval) list \<Rightarrow> py_error + real list" where
  "encode enc agent_state =
     bind_err (extract_all feature_extractors agent_state) (\<lambda>features.
       (let trading_mode = dict_get agent_state ''trading_mode'' (PyStr ''stock'');
            features = features @ [if trading_mode = PyStr ''options'' then 1 else 0]
        in Inr (pad_or_truncate (state_dim enc) features)))"

text \<open>\<open>xs[i]\<close> on a Python list: indices from \<open>-len\<close> to \<open>len - 1\<close>, otherwise \<open>IndexError\<close>.\<close>

definition list_index :: "'a list \<Rightarrow> int \<Rightarrow> py_error + 'a" where
  "list_index xs i =
     (if 0 \<le> i \<and> i < int (length xs) then Inr (xs ! nat i)
      else if i < 0 \<and> - int (length xs) \<le> i then Inr (xs ! nat (int (length xs) + i))
      else Inl IndexError)"

definition decode_action :: "int \<Rightarrow> int \<Rightarrow> py_error + string" where
  "decode_action action num_actions =
     (if num_actions = 3 then list_index [''BUY'', ''HOLD'', ''SELL''] action
      else if num_actions = 5
      then list_index [''STRONG_BUY'', ''BUY'', ''HOLD'', ''SELL'', ''STRONG_SELL''] action
      else Inr ''HOLD'')"

subsection \<open>The texts a capture group can hold\<close>

text \<open>
  \<open>group_of p\<close> is the part of a pattern inside its capture group, and \<open>exact es s\<close> says
  that the whole of \<open>s\<close> matches the sequence \<open>es\<close> of quantified atoms. They describe the
  texts \<open>re_search\<close> can return, and so the arguments \<open>float\<close> can receive.
\<close>

definition group_of :: "elem list \<Rightarrow> (atom \<times> quant) list" where
  "group_of p = map (\<lambda>(a, q, g). (a, q)) (filter (\<lambda>(a, q, g). g) p)"

fun exact :: "(atom \<times> quant) list \<Rightarrow> string \<Rightarrow> bool" where
  "exact [] s = (s = [])"
| "exact ((a, One) # es) s =
     (case s of [] \<Rightarrow> False | c # cs \<Rightarrow> accepts a c \<and> exact es cs)"
| "exact ((a, Opt) # es) s =
     (exact es s \<or> (case s of [] \<Rightarrow> False | c # cs \<Rightarrow> accepts a c \<and> exact es cs))"
| "exact ((a, Star) # es) s =
     (exact es s \<or>
      (case s of [] \<Rightarrow> False | c # cs \<Rightarrow> accepts a c \<and> exact ((a, Star) # es) cs))"
| "exact ((a, Plus) # es) s =
     (case s of [] \<Rightarrow> False | c # cs \<Rightarrow> accepts a c \<and> exact ((a, Star) # es) cs)"

text \<open>
  The report mappings of the interface: each of the five report keys is absent or holds
  a text.
\<close>

definition is_text :: "pyval \<Rightarrow> bool" where
  "is_text v = (case v of PyStr s \<Rightarrow> True | _ \<Rightarrow> False)"

definition reports_are_text :: "(string \<times> pyval) list \<Rightarrow> bool" where
  "reports_are_text agent_state =
     list_all (\<lambda>(report_key, extractor). is_text (dict_get agent_state report_key (PyStr '''')))
       feature_extractors"

section \<open>TradingEnvironment (rl\_environment.py)\<close>

text \<open>A trade record: the stock-mode dictionary or the options-mode dictionary.\<close>

datatype trade =
    StockTrade real real real real
  | OptionsTrade string real real real "(string \<times> real) list option"

text \<open>\<open>trade.get("pnl", 0)\<close> and \<open>trade["reward"]\<close>; both kinds of record carry the keys.\<close>

fun trade_pnl :: "trade \<Rightarrow> real" where
  "trade_pnl (StockTrade entry exit pnl reward) = pnl"
| "trade_pnl (OptionsTrade strategy premium pnl reward greeks) = pnl"

record environment =
  env_encoder :: encoder
  env_reward_calculator :: reward_calc
  initial_capital :: real
  max_steps :: int
  current_step :: int
  capital :: real
  position :: int
  entry_price :: real
  agent_state :: "(string \<times> pyval) list"
  trade_history :: "trade list"
  action_space_n :: int

definition TradingEnvironment_init :: "encoder \<Rightarrow> reward_calc \<Rightarrow> real \<Rightarrow> int \<Rightarrow> environment" where
  "TradingEnvironment_init enc rc init_capital steps =
     \<lparr>env_encoder = enc, env_reward_calculator = rc, initial_capital = init_capital,
      max_steps = steps, current_step = 0, capital = init_capital, position = 0,
      entry_price = 0, agent_state = [], trade_history = [], action_space_n = 3\<rparr>"

text \<open>
  The methods mutate the environment in place, also when they end by raising: each returns
  the environment as the call leaves it, together with the value returned or the exception.
  \<open>if agent_state:\<close> in \<open>reset\<close> holds for a non-empty dictionary (\<open>None\<close> is the argument
  \<open>None\<close> of the source).
\<close>

definition reset ::
  "environment \<Rightarrow> (string \<times> pyval) list option \<Rightarrow> environment \<times> (py_error + real list)" where
  "reset env new_state =
     (let env = env\<lparr>current_step := 0, capital := initial_capital env, position := 0,
                     entry_price := 0, trade_history := []\<rparr>;
          env = (case new_state of
                   None \<Rightarrow> env
                 | Some st \<Rightarrow> if st = [] then env else env\<lparr>agent_state := st\<rparr>)
      in (env, encode (env_encoder env) (agent_state env)))"

text \<open>The end of \<open>step\<close>: the termination test and the encoding of the next state.\<close>

definition step_done :: "environment \<Rightarrow> bool" where
  "step_done env =
     (current_step env \<ge> max_steps env \<or> capital env \<le> 0 \<or>
      capital env \<ge> initial_capital env * 2)"

definition step_finish ::
  "environment \<Rightarrow> real \<Rightarrow> (string \<times> pyval) list \<Rightarrow>
   environment \<times> (py_error + real list \<times> real \<times> bool \<times> (string \<times> pyval) list)" where
  "step_finish env reward info =
     (let done = step_done env
      in (env, bind_err (encode (env_encoder env) (agent_state env))
                 (\<lambda>next_state. Inr (next_state, reward, done, info))))"

definition step ::
  "environment \<Rightarrow> int \<Rightarrow> (string \<times> pyval) list \<Rightarrow> real \<Rightarrow>
   environment \<times> (py_error + real list \<times> real \<times> bool \<times> (string \<times> pyval) list)" where
  "step env0 action new_state current_price =
     (let env = env0\<lparr>current_step := current_step env0 + 1, agent_state := new_state\<rparr>
      in case decode_action action (action_space_n env) of
           Inl e \<Rightarrow> (env, Inl e)
         | Inr action_str \<Rightarrow>
             (let info = [(''action'', PyStr action_str), (''position'', PyInt (position env)),
                          (''capital'', PyFloat (capital env)), (''step'', PyInt (current_step env))]
              in if action_str = ''BUY'' \<and> position env = 0 then
                   step_finish (env\<lparr>position := 1, entry_price := current_price\<rparr>) 0
                     (info @ [(''entry_price'', PyFloat current_price)])
                 else if action_str = ''SELL'' \<and> position env = 1 then
                   (case calculate_reward (env_reward_calculator env) ''BUY'' (entry_price env)
                           current_price 1 None of
                      Inl e \<Rightarrow> (env, Inl e)
                    | Inr reward \<Rightarrow>
                        (case py_div (current_price - entry_price env) (entry_price env) of
                           Inl e \<Rightarrow> (env, Inl e)
                         | Inr ret \<Rightarrow>
                             (let pnl = ret * capital env
                              in step_finish
                                   (env\<lparr>capital := capital env + pnl,
                                        trade_history := trade_history env @
                                          [StockTrade (entry_price env) current_price pnl reward],
                                        position := 0, entry_price := 0\<rparr>)
                                   reward
                                   (info @ [(''exit_price'', PyFloat current_price),
                                            (''pnl'', PyFloat pnl),
                                            (''trade_result'',
                                             PyStr (if pnl > 0 then ''profit'' else ''loss''))]))))
                 else step_finish env 0 info))"

definition options_action_str :: "int \<Rightarrow> string" where
  "options_action_str action = (if action = 0 then ''BUY'' else ''SELL'')"

definition options_done :: "environment \<Rightarrow> bool" where
  "options_done env =
     (current_step env \<ge> max_steps env \<or>
      capital env \<le> initial_capital env * (5 / 10) \<or>
      capital env \<ge> initial_capital env * (15 / 10))"

definition step_options ::
  "environment \<Rightarrow> int \<Rightarrow> (string \<times> pyval) list \<Rightarrow> string \<Rightarrow> real \<Rightarrow> real \<Rightarrow> real \<Rightarrow>
   (string \<times> real) list option \<Rightarrow>
   environment \<times> (py_error + real list \<times> real \<times> bool \<times> (string \<times> pyval) list)" where
  "step_options env0 action new_state strategy premium pnl max_loss greeks =
     (let env = env0\<lparr>current_step := current_step env0 + 1, agent_state := new_state\<rparr>;
          action_str = options_action_str action;
          reward = calculate_options_reward (env_reward_calculator env) action_str strategy
                     premium pnl max_loss greeks;
          env = env\<lparr>capital := capital env + pnl\<rparr>;
          env = env\<lparr>trade_history := trade_history env @
                       [OptionsTrade strategy premium pnl reward greeks]\<rparr>;
          info = [(''action'', PyStr action_str), (''strategy'', PyStr strategy),
                  (''capital'', PyFloat (capital env)), (''pnl'', PyFloat pnl),
                  (''step'', PyInt (current_step env))];
          done = options_done env
      in (env, bind_err (encode (env_encoder env) (agent_state env))
                 (\<lambda>next_state. Inr (next_state, reward, done, info))))"

text \<open>The risk-free rate is the default argument \<open>0.02\<close> of the Sharpe reward.\<close>

definition get_trade_statistics :: "environment \<Rightarrow> py_error + (string \<times> pyval) list" where
  "get_trade_statistics env =
     (if trade_history env = [] then
        Inr [(''total_trades'', PyInt 0), (''win_rate'', PyFloat 0), (''avg_profit'', PyFloat 0),
             (''avg_loss'', PyFloat 0), (''total_pnl'', PyFloat 0), (''sharpe_ratio'', PyFloat 0)]
      else
        (let pnls = map trade_pnl (trade_history env);
             wins = filter (\<lambda>pnl. pnl > 0) pnls;
             losses = filter (\<lambda>pnl. pnl < 0) pnls
         in bind_err (py_div (capital env - initial_capital env) (initial_capital env))
              (\<lambda>ret.
                 Inr [(''total_trades'', PyInt (int (length (trade_history env)))),
                      (''win_rate'',
                       PyFloat (real (length wins) / real (length (trade_history env)))),
                      (''avg_profit'', PyFloat (if wins \<noteq> [] then np_mean wins else 0)),
                      (''avg_loss'', PyFloat (if losses \<noteq> [] then np_mean losses else 0)),
                      (''total_pnl'', PyFloat (sum_list pnls)),
                      (''sharpe_ratio'', PyFloat (calculate_sharpe_ratio_reward pnls (2 / 100))),
                      (''final_capital'', PyFloat (capital env)),
                      (''return_pct'', PyFloat (ret * 100))])))"

text \<open>
  \<open>render\<close>: the values it prints, in order; the statistics are read with \<open>stats[key]\<close>,
  which raises \<open>KeyError\<close> on a missing key. Other modes than \<open>"human"\<close> print nothing.
\<close>

definition render :: "environment \<Rightarrow> string \<Rightarrow> py_error + pyval list" where
  "render env mode =
     (if mode = ''human'' then
        bind_err (get_trade_statistics env) (\<lambda>stats.
        bind_err (dict_index stats ''win_rate'') (\<lambda>win_rate.
        bind_err (dict_index stats ''total_pnl'') (\<lambda>total_pnl.
        bind_err (dict_index stats ''return_pct'') (\<lambda>return_pct.
          Inr [PyInt (current_step env), PyFloat (capital env), PyInt (position env),
               PyInt (int (length (trade_history env))), win_rate, total_pnl, return_pct]))))
      else Inr [])"

section \<open>RLTradingAgent (rl\_agent.py)\<close>

subsection \<open>Networks as dictionaries of parameters\<close>

text \<open>
  A tensor is its shape and its contents; the contents are kept abstract (\<open>'w\<close>). The
  \<open>state_dict\<close> of a network lists its parameters by name, in the order of the layers.
  \<open>DQN(state_dim, action_dim)\<close> with the default hidden sizes 256, 128, 64 is a
  \<open>Sequential\<close> whose linear layers sit at positions 0, 3, 6 and 9; the weight of a linear
  layer from \<open>n\<close> inputs to \<open>m\<close> outputs has the shape \<open>[m, n]\<close>, its bias \<open>[m]\<close>.
\<close>

type_synonym 'w tensor = "nat list \<times> 'w"

type_synonym 'w state_dict = "(string \<times> 'w tensor) list"

definition DQN_shapes :: "nat \<Rightarrow> nat \<Rightarrow> (string \<times> nat list) list" where
  "DQN_shapes sd ad =
     [(''network.0.weight'', [256, sd]), (''network.0.bias'', [256]),
      (''network.3.weight'', [128, 256]), (''network.3.bias'', [128]),
      (''network.6.weight'', [64, 128]), (''network.6.bias'', [64]),
      (''network.9.weight'', [ad, 64]), (''network.9.bias'', [ad])]"

text \<open>A freshly constructed network; \<open>w\<close> gives the initial contents of each parameter.\<close>

definition DQN_init :: "nat \<Rightarrow> nat \<Rightarrow> (string \<Rightarrow> 'w) \<Rightarrow> 'w state_dict" where
  "DQN_init sd ad w = map (\<lambda>(k, shape). (k, (shape, w k))) (DQN_shapes sd ad)"

text \<open>
  \<open>Module.load_state_dict(sd)\<close> of the library, with its default \<open>strict=True\<close>, as the
  library documents and implements it: every parameter of the module whose name is in \<open>sd\<close>
  with the same shape is overwritten by the entry of \<open>sd\<close>; a parameter whose entry has
  another shape is skipped and reported, as are missing and unexpected names; after the
  pass over all parameters, a non-empty report is raised as \<open>RuntimeError\<close>. The module is
  returned as the call leaves it.
\<close>

fun load_params :: "'w state_dict \<Rightarrow> 'w state_dict \<Rightarrow> 'w state_dict \<times> bool" where
  "load_params [] sd = ([], True)"
| "load_params ((k, (shape, w)) # rest) sd =
     (let (rest', ok) = load_params rest sd
      in case map_of sd k of
           None \<Rightarrow> ((k, (shape, w)) # rest', False)
         | Some (shape', w') \<Rightarrow>
             if shape' = shape then ((k, (shape, w')) # rest', ok)
             else ((k, (shape, w)) # rest', False))"

definition load_state_dict :: "'w state_dict \<Rightarrow> 'w state_dict \<Rightarrow> 'w state_dict \<times> py_error option" where
  "load_state_dict net sd =
     (let (net', ok) = load_params net sd;
          unexpected = filter (\<lambda>k. k \<notin> set (map fst net)) (map fst sd)
      in if ok \<and> unexpected = [] then (net', None) else (net', Some RuntimeError))"

subsection \<open>The agent\<close>

text \<open>
  The optimizer state is kept abstract (\<open>'o\<close>). The operations of the numeric library are
  parameters of the methods that use them:
  \<^item> \<open>pick\<close>: the choice \<open>random.sample\<close> makes among the transitions of the buffer;
  \<^item> \<open>optimize\<close>: one gradient step (loss of the batch under the policy and target
    networks, clipping, optimizer step), giving the new policy network, the new optimizer
    state and the loss value;
  \<^item> \<open>load_opt\<close>: \<open>Optimizer.load_state_dict\<close>.
\<close>

record ('w, 'o) agent =
  agent_state_dim :: int
  action_dim :: int
  gamma :: real
  epsilon :: real
  epsilon_end :: real
  epsilon_decay :: real
  batch_size :: int
  target_update_freq :: int
  policy_net :: "'w state_dict"
  target_net :: "'w state_dict"
  optimizer :: 'o
  replay_buffer :: replay_buffer
  training_step :: int
  episode_rewards :: "real list"
  losses :: "real list"

text \<open>
  The constructor. A negative dimension is refused by the linear layers
  (\<open>RuntimeError\<close>), a negative capacity by the buffer. The target network starts as a copy
  of the policy network.
\<close>

definition RLTradingAgent_init ::
  "int \<Rightarrow> int \<Rightarrow> real \<Rightarrow> real \<Rightarrow> real \<Rightarrow> real \<Rightarrow> int \<Rightarrow> int \<Rightarrow> int \<Rightarrow> (string \<Rightarrow> 'w) \<Rightarrow> 'o \<Rightarrow>
   py_error + ('w, 'o) agent" where
  "RLTradingAgent_init sd ad gam eps_start eps_end eps_decay capacity bs freq w opt =
     (if sd < 0 \<or> ad < 0 then Inl RuntimeError
      else bind_err (ReplayBuffer_init capacity) (\<lambda>rb.
        Inr \<lparr>agent_state_dim = sd, action_dim = ad, gamma = gam, epsilon = eps_start,
             epsilon_end = eps_end, epsilon_decay = eps_decay, batch_size = bs,
             target_update_freq = freq,
             policy_net = DQN_init (nat sd) (nat ad) w,
             target_net = DQN_init (nat sd) (nat ad) w,
             optimizer = opt, replay_buffer = rb, training_step = 0,
             episode_rewards = [], losses = []\<rparr>))"

definition store_experience ::
  "('w, 'o) agent \<Rightarrow> real list \<Rightarrow> int \<Rightarrow> real \<Rightarrow> real list \<Rightarrow> bool \<Rightarrow> ('w, 'o) agent" where
  "store_experience ag state action reward next_state done =
     ag\<lparr>replay_buffer := push (replay_buffer ag) state action reward next_state done\<rparr>"

text \<open>
  \<open>ReplayBuffer.sample\<close>: \<open>random.sample\<close> raises \<open>ValueError\<close> for a negative size and
  for one larger than the population; unpacking \<open>zip(*batch)\<close> of an empty batch into five
  names raises \<open>ValueError\<close> as well. The batch is returned as its five parallel sequences.
\<close>

definition sample ::
  "(transition list \<Rightarrow> nat \<Rightarrow> transition list) \<Rightarrow> replay_buffer \<Rightarrow> int \<Rightarrow>
   py_error + real list list \<times> int list \<times> real list \<times> real list list \<times> bool list" where
  "sample pick rb bs =
     (if bs < 0 \<or> int (length (buffer rb)) < bs then Inl ValueError
      else
        (let batch = pick (buffer rb) (nat bs)
         in if batch = [] then Inl ValueError
            else Inr (map (\<lambda>(s, a, r, s', d). s) batch,
                      map (\<lambda>(s, a, r, s', d). a) batch,
                      map (\<lambda>(s, a, r, s', d). r) batch,
                      map (\<lambda>(s, a, r, s', d). s') batch,
                      map (\<lambda>(s, a, r, s', d). d) batch)))"

text \<open>
  \<open>train_step\<close> returns the agent as the call leaves it and the loss, \<open>None\<close> when the
  buffer holds too few transitions. \<open>training_step % target_update_freq\<close> raises
  \<open>ZeroDivisionError\<close> for a zero frequency.
\<close>

definition train_step ::
  "(transition list \<Rightarrow> nat \<Rightarrow> transition list) \<Rightarrow>
   ('w state_dict \<Rightarrow> 'w state_dict \<Rightarrow> 'o \<Rightarrow> real \<Rightarrow>
      real list list \<times> int list \<times> real list \<times> real list list \<times> bool list \<Rightarrow>
      'w state_dict \<times> 'o \<times> real) \<Rightarrow>
   ('w, 'o) agent \<Rightarrow> ('w, 'o) agent \<times> (py_error + real option)" where
  "train_step pick optimize ag =
     (if int (len_buffer (replay_buffer ag)) < batch_size ag then (ag, Inr None)
      else
        case sample pick (replay_buffer ag) (batch_size ag) of
          Inl e \<Rightarrow> (ag, Inl e)
        | Inr batch \<Rightarrow>
            (let (policy', opt', loss_value) =
                   optimize (policy_net ag) (target_net ag) (optimizer ag) (gamma ag) batch;
                 ag = ag\<lparr>policy_net := policy', optimizer := opt',
                         training_step := training_step ag + 1\<rparr>
             in if target_update_freq ag = 0 then (ag, Inl ZeroDivisionError)
                else
                  (let ag = (if training_step ag mod target_update_freq ag = 0
                             then ag\<lparr>target_net := policy_net ag\<rparr> else ag);
                       ag = ag\<lparr>epsilon := max (epsilon_end ag) (epsilon ag * epsilon_decay ag)\<rparr>;
                       ag = ag\<lparr>losses := losses ag @ [loss_value]\<rparr>
                   in (ag, Inr (Some loss_value)))))"

subsection \<open>Persistence\<close>

text \<open>
  The artifact written by \<open>save_model\<close> with \<open>torch.save\<close> and read back by \<open>torch.load\<close>.
  The file system is outside the model: \<open>save_model\<close> gives the artifact and
  \<open>load_model\<close> takes it.
\<close>

record ('w, 'o) checkpoint =
  policy_net_state_dict :: "'w state_dict"
  target_net_state_dict :: "'w state_dict"
  optimizer_state_dict :: 'o
  ck_epsilon :: real
  ck_training_step :: int
  ck_episode_rewards :: "real list option"

definition save_model :: "('w, 'o) agent \<Rightarrow> ('w, 'o) checkpoint" where
  "save_model ag =
     \<lparr>policy_net_state_dict = policy_net ag, target_net_state_dict = target_net ag,
      optimizer_state_dict = optimizer ag, ck_epsilon = epsilon ag,
      ck_training_step = training_step ag, ck_episode_rewards = Some (episode_rewards ag)\<rparr>"

definition load_model ::
  "('o \<Rightarrow> 'o \<Rightarrow> 'o \<times> py_error option) \<Rightarrow> ('w, 'o) agent \<Rightarrow> ('w, 'o) checkpoint \<Rightarrow>
   ('w, 'o) agent \<times> py_error option" where
  "load_model load_opt ag checkpoint =
     (case load_state_dict (policy_net ag) (policy_net_state_dict checkpoint) of
        (p, Some e) \<Rightarrow> (ag\<lparr>policy_net := p\<rparr>, Some e)
      | (p, None) \<Rightarrow>
          (let ag = ag\<lparr>policy_net := p\<rparr>
           in case load_state_dict (target_net ag) (target_net_state_dict checkpoint) of
                (t, Some e) \<Rightarrow> (ag\<lparr>target_net := t\<rparr>, Some e)
              | (t, None) \<Rightarrow>
                  (let ag = ag\<lparr>target_net := t\<rparr>
                   in case load_opt (optimizer ag) (optimizer_state_dict checkpoint) of
                        (opt, Some e) \<Rightarrow> (ag\<lparr>optimizer := opt\<rparr>, Some e)
                      | (opt, None) \<Rightarrow>
                          (ag\<lparr>optimizer := opt, epsilon := ck_epsilon checkpoint,
                              training_step := ck_training_step checkpoint,
                              episode_rewards :=
                                (case ck_episode_rewards checkpoint of
                                   None \<Rightarrow> [] | Some rs \<Rightarrow> rs)\<rparr>,
                           None))))"

subsection \<open>Instances of the library parameters\<close>

text \<open>
  Simple instances, for running the methods on concrete inputs: a sampler that takes the
  oldest transitions, a gradient step that leaves the network as it is and reports loss
  \<open>0\<close>, and an optimizer whose \<open>load_state_dict\<close> accepts every saved state.
\<close>

definition pick_first :: "transition list \<Rightarrow> nat \<Rightarrow> transition list" where
  "pick_first ts n = take n ts"

definition optimize_keep ::
  "'w state_dict \<Rightarrow> 'w state_dict \<Rightarrow> 'o \<Rightarrow> real \<Rightarrow>
   real list list \<times> int list \<times> real list \<times> real list list \<times> bool list \<Rightarrow>
   'w state_dict \<times> 'o \<times> real" where
  "optimize_keep policy target opt gam batch = (policy, opt, 0)"

definition load_opt_ok :: "'o \<Rightarrow> 'o \<Rightarrow> 'o \<times> py_error option" where
  "load_opt_ok current saved = (saved, None)"

text \<open>The names and shapes of the parameters of a network.\<close>

definition shapes_of :: "'w state_dict \<Rightarrow> (string \<times> nat list) list" where
  "shapes_of net = map (\<lambda>(k, (shape, w)). (k, shape)) net"

section \<open>StateEncoder: the extractors never raise on texts\<close>

lemma rmatch_exact:
  "rmatch ps s = Some g \<Longrightarrow> exact (group_of ps) g"
proof (induction ps s arbitrary: g rule: rmatch.induct)
  case (1 s)
  then show ?case by (simp add: group_of_def)
next
  case (2 a g' ps s)
  then show ?case
    by (cases s) (auto simp: group_of_def keep_def split: if_splits)
next
  case (3 a g' ps s)
  then show ?case
    by (cases s) (auto simp: group_of_def keep_def split: if_splits option.splits)
next
  case (4 a g' ps s)
  then show ?case
    by (cases s) (auto simp: group_of_def keep_def split: if_splits option.splits)
next
  case (5 a g' ps s)
  then show ?case
    by (cases s) (auto simp: group_of_def keep_def split: if_splits)
qed

lemma re_search_exact:
  "re_search p s = Some g \<Longrightarrow> exact (group_of p) g"
  by (induction s) (auto dest: rmatch_exact split: option.splits)

lemma not_digit_dot: "\<not> is_digit CHR ''.''" "\<not> is_digit CHR ''-''"
  by (simp_all add: is_digit_def)

lemma of_char_lower:
  "is_upper c \<Longrightarrow> (of_char (lower_char c) :: nat) = of_char c + 32"
  by (simp add: lower_char_def is_upper_def)

lemma accepts_dot: "accepts (Ch CHR ''.'') c \<longleftrightarrow> c = CHR ''.''"
proof -
  have "lower_char c = CHR ''.'' \<Longrightarrow> c = CHR ''.''"
  proof (cases "is_upper c")
    case True
    assume "lower_char c = CHR ''.''"
    then have "(of_char (lower_char c) :: nat) = 46" by simp
    with of_char_lower[OF True] True show ?thesis by (simp add: is_upper_def)
  next
    case False
    assume "lower_char c = CHR ''.''"
    with False show ?thesis by (simp add: lower_char_def)
  qed
  moreover have "lower_char CHR ''.'' = CHR ''.''" by (simp add: lower_char_def is_upper_def)
  ultimately show ?thesis by auto
qed

lemma accepts_minus: "accepts (Ch CHR ''-'') c \<longleftrightarrow> c = CHR ''-''"
proof -
  have "lower_char c = CHR ''-'' \<Longrightarrow> c = CHR ''-''"
  proof (cases "is_upper c")
    case True
    assume "lower_char c = CHR ''-''"
    then have "(of_char (lower_char c) :: nat) = 45" by simp
    with of_char_lower[OF True] True show ?thesis by (simp add: is_upper_def)
  next
    case False
    assume "lower_char c = CHR ''-''"
    with False show ?thesis by (simp add: lower_char_def)
  qed
  moreover have "lower_char CHR ''-'' = CHR ''-''" by (simp add: lower_char_def is_upper_def)
  ultimately show ?thesis by auto
qed

lemma exact_Opt:
  "exact ((a, Opt) # es) s \<longleftrightarrow>
   exact es s \<or> (\<exists>c cs. s = c # cs \<and> accepts a c \<and> exact es cs)"
  by (cases s) simp_all

lemma exact_Star:
  "exact ((a, Star) # es) s \<longleftrightarrow>
   exact es s \<or> (\<exists>c cs. s = c # cs \<and> accepts a c \<and> exact ((a, Star) # es) cs)"
  by (cases s) simp_all

lemma exact_Plus:
  "exact ((a, Plus) # es) s \<longleftrightarrow>
   (\<exists>c cs. s = c # cs \<and> accepts a c \<and> exact ((a, Star) # es) cs)"
  by (cases s) simp_all

lemma exact_digits: "exact [(Digit, Star)] f \<Longrightarrow> list_all is_digit f"
proof (induction f)
  case Nil
  then show ?case by simp
next
  case (Cons c f)
  from Cons.prems have "is_digit c \<and> exact [(Digit, Star)] f"
    by (subst (asm) exact_Star) simp
  with Cons.IH show ?case by simp
qed

lemma exact_fraction:
  assumes "exact [(Ch CHR ''.'', Opt), (Digit, Star)] r"
  shows "list_all is_digit r \<or> (\<exists>f. r = CHR ''.'' # f \<and> list_all is_digit f)"
proof -
  from assms have "exact [(Digit, Star)] r \<or>
    (\<exists>c cs. r = c # cs \<and> accepts (Ch CHR ''.'') c \<and> exact [(Digit, Star)] cs)"
    by (subst (asm) exact_Opt)
  then show ?thesis
    by (auto simp only: accepts_dot dest!: exact_digits)
qed

lemma exact_number_tail:
  "exact [(Digit, Star), (Ch CHR ''.'', Opt), (Digit, Star)] cs \<Longrightarrow>
   \<exists>ds r. cs = ds @ r \<and> list_all is_digit ds \<and>
     (r = [] \<or> (\<exists>f. r = CHR ''.'' # f \<and> list_all is_digit f))"
proof (induction cs)
  case Nil
  then show ?case by simp
next
  case (Cons c cs)
  from Cons.prems have
    "exact [(Ch CHR ''.'', Opt), (Digit, Star)] (c # cs) \<or>
     (is_digit c \<and> exact [(Digit, Star), (Ch CHR ''.'', Opt), (Digit, Star)] cs)"
    by (subst (asm) exact_Star) simp
  then show ?case
  proof
    assume "exact [(Ch CHR ''.'', Opt), (Digit, Star)] (c # cs)"
    from exact_fraction[OF this] show ?thesis
    proof
      assume "list_all is_digit (c # cs)"
      then have "c # cs = (c # cs) @ [] \<and> list_all is_digit (c # cs)" by simp
      then show ?thesis by blast
    next
      assume "\<exists>f. c # cs = CHR ''.'' # f \<and> list_all is_digit f"
      then have "c # cs = [] @ (c # cs) \<and> list_all is_digit []
        \<and> (\<exists>f. c # cs = CHR ''.'' # f \<and> list_all is_digit f)" by simp
      then show ?thesis by blast
    qed
  next
    assume a: "is_digit c \<and> exact [(Digit, Star), (Ch CHR ''.'', Opt), (Digit, Star)] cs"
    with Cons.IH obtain ds r where
      "cs = ds @ r" "list_all is_digit ds"
      "r = [] \<or> (\<exists>f. r = CHR ''.'' # f \<and> list_all is_digit f)" by blast
    with a have "c # cs = (c # ds) @ r \<and> list_all is_digit (c # ds) \<and>
      (r = [] \<or> (\<exists>f. r = CHR ''.'' # f \<and> list_all is_digit f))" by simp
    then show ?thesis by blast
  qed
qed

lemma float_unsigned_digits:
  assumes "ds \<noteq> []" "list_all is_digit ds"
    and "r = [] \<or> (\<exists>f. r = CHR ''.'' # f \<and> list_all is_digit f)"
  shows "\<exists>v. float_unsigned (ds @ r) = Inr v"
proof -
  have t: "takeWhile is_digit (ds @ r) = ds" and d: "dropWhile is_digit (ds @ r) = r"
    using assms by (auto simp: list_all_iff takeWhile_append2 dropWhile_append2 not_digit_dot)
  show ?thesis
    using assms by (auto simp: float_unsigned_def Let_def t d)
qed

lemma group_of_num: "group_of num = [(Digit, Plus), (Ch CHR ''.'', Opt), (Digit, Star)]"
  by (simp add: group_of_def num_def)

lemma exact_num_float_unsigned:
  assumes "exact (group_of num) g"
  shows "(\<exists>v. float_unsigned g = Inr v) \<and> g \<noteq> [] \<and> is_digit (hd g)"
proof -
  from assms obtain c cs where g: "g = c # cs" "is_digit c"
    "exact [(Digit, Star), (Ch CHR ''.'', Opt), (Digit, Star)] cs"
    unfolding group_of_num by (subst (asm) exact_Plus) auto
  from exact_number_tail[OF g(3)] obtain ds r where dr:
    "cs = ds @ r" "list_all is_digit ds"
    "r = [] \<or> (\<exists>f. r = CHR ''.'' # f \<and> list_all is_digit f)" by blast
  with g have "g = (c # ds) @ r" "c # ds \<noteq> []" "list_all is_digit (c # ds)" by simp_all
  with float_unsigned_digits[of "c # ds" r] dr(3)
  have "\<exists>v. float_unsigned g = Inr v" by simp
  then show ?thesis using g by simp
qed

lemma exact_num_py_float:
  assumes "exact (group_of num) g"
  shows "\<exists>v. py_float g = Inr v"
proof -
  from exact_num_float_unsigned[OF assms] obtain v where
    "float_unsigned g = Inr v" "g \<noteq> []" "is_digit (hd g)" by blast
  then show ?thesis
    by (cases g) (auto simp: py_float_def not_digit_dot)
qed

lemma exact_signed_num_py_float:
  assumes "exact (group_of signed_num) g"
  shows "\<exists>v. py_float g = Inr v"
proof -
  have go: "group_of signed_num = (Ch CHR ''-'', Opt) # group_of num"
    by (simp add: group_of_def signed_num_def)
  from assms have "exact (group_of num) g \<or>
    (\<exists>t. g = CHR ''-'' # t \<and> exact (group_of num) t)"
    unfolding go by (subst (asm) exact_Opt) (auto simp only: accepts_minus)
  then show ?thesis
  proof
    assume "exact (group_of num) g"
    then show ?thesis by (rule exact_num_py_float)
  next
    assume "\<exists>t. g = CHR ''-'' # t \<and> exact (group_of num) t"
    then obtain t where t: "g = CHR ''-'' # t" "exact (group_of num) t" by blast
    from exact_num_float_unsigned[OF t(2)] obtain v where "float_unsigned t = Inr v" by blast
    then show ?thesis by (simp add: t py_float_def bind_err_def)
  qed
qed

lemma group_of_append: "group_of (xs @ ys) = group_of xs @ group_of ys"
  by (simp add: group_of_def)

lemma group_of_lit: "group_of (lit k) = []"
  by (induction k) (simp_all add: group_of_def lit_def)

lemma group_of_outside: "group_of [] = []" "group_of sep = []"
  by (simp_all add: group_of_def sep_def)

lemma group_of_Cons_outside: "group_of ((a, q, False) # xs) = group_of xs"
  by (simp add: group_of_def)

lemmas group_of_simps = group_of_append group_of_lit group_of_outside group_of_Cons_outside

lemma extract_loop_total:
  assumes "\<forall>(name, p) \<in> set pats. group_of p = group_of num \<or> group_of p = group_of signed_num"
  shows "\<exists>fs. extract_loop post pats s = Inr fs \<and> length fs = length pats"
  using assms
proof (induction pats)
  case Nil
  then show ?case by simp
next
  case (Cons np pats)
  obtain name p where np: "np = (name, p)" by (cases np)
  from Cons obtain fs where fs: "extract_loop post pats s = Inr fs" "length fs = length pats"
    by auto
  from Cons.prems np have gp: "group_of p = group_of num \<or> group_of p = group_of signed_num"
    by simp
  show ?case
  proof (cases "re_search p s")
    case None
    then show ?thesis by (simp add: np fs bind_err_def)
  next
    case (Some g)
    from re_search_exact[OF Some] gp have "\<exists>v. py_float g = Inr v"
      by (auto dest: exact_num_py_float exact_signed_num_py_float)
    then obtain v where "py_float g = Inr v" by blast
    then show ?thesis by (simp add: np fs Some bind_err_def)
  qed
qed

lemma technical_total:
  "\<exists>fs. extract_technical_features (PyStr s) = Inr fs \<and> length fs = 9"
proof -
  have "\<forall>(name, p) \<in> set indicators.
          group_of p = group_of num \<or> group_of p = group_of signed_num"
    by (simp add: indicators_def group_of_simps)
  from extract_loop_total[OF this, of "\<lambda>name v. if name = ''rsi'' then v / 100 else v" s]
  obtain fs where
    "extract_loop (\<lambda>name v. if name = ''rsi'' then v / 100 else v) indicators s = Inr fs"
    "length fs = length indicators" by blast
  moreover have "length indicators = 8" by (simp add: indicators_def)
  ultimately show ?thesis
    by (simp add: extract_technical_features_def bind_err_def)
qed

lemma fundamental_total:
  "\<exists>fs. extract_fundamental_features (PyStr s) = Inr fs \<and> length fs = 6"
proof -
  have "\<forall>(name, p) \<in> set metrics.
          group_of p = group_of num \<or> group_of p = group_of signed_num"
    by (simp add: metrics_def group_of_simps)
  from extract_loop_total[OF this, of "\<lambda>name v. v" s]
  obtain fs where "extract_loop (\<lambda>name v. v) metrics s = Inr fs"
    "length fs = length metrics" by blast
  moreover have "length metrics = 6" by (simp add: metrics_def)
  ultimately show ?thesis
    by (simp add: extract_fundamental_features_def)
qed

lemma news_total:
  "\<exists>fs. extract_news_features (PyStr s) = Inr fs \<and> length fs = 3"
  by (simp add: extract_news_features_def Let_def)

lemma sentiment_total:
  "\<exists>fs. extract_sentiment_features (PyStr s) = Inr fs \<and> length fs = 2"
  by (simp add: extract_sentiment_features_def Let_def)

lemma options_total:
  "\<exists>fs. extract_options_features (PyStr s) = Inr fs \<and> length fs = 8"
proof -
  have "\<forall>(name, p) \<in> set greeks_patterns.
          group_of p = group_of num \<or> group_of p = group_of signed_num"
    by (simp add: greeks_patterns_def group_of_simps)
  from extract_loop_total[OF this, of "\<lambda>name v. v" s]
  obtain fs where fs0: "extract_loop (\<lambda>name v. v) greeks_patterns s = Inr fs"
    "length fs = length greeks_patterns" by blast
  have "length greeks_patterns = 5" by (simp add: greeks_patterns_def)
  with fs0 have fs: "extract_loop (\<lambda>name v. v) greeks_patterns s = Inr fs" "length fs = 5"
    by simp_all
  have iv: "\<exists>v. (case re_search (lit ''IV'' @ sep @ num @ [(Ch CHR ''%'', Opt, False)]) s of
               Some g \<Rightarrow> bind_err (py_float g) (\<lambda>v. Inr (v / 100))
             | None \<Rightarrow> Inr 0) = Inr v"
  proof (cases "re_search (lit ''IV'' @ sep @ num @ [(Ch CHR ''%'', Opt, False)]) s")
    case None
    then show ?thesis by simp
  next
    case (Some g)
    from re_search_exact[OF Some] have "exact (group_of num) g"
      by (simp add: group_of_simps)
    from exact_num_py_float[OF this] obtain v where "py_float g = Inr v" by blast
    then have "(case re_search (lit ''IV'' @ sep @ num @ [(Ch CHR ''%'', Opt, False)]) s of
               Some g \<Rightarrow> bind_err (py_float g) (\<lambda>v. Inr (v / 100))
             | None \<Rightarrow> Inr 0) = Inr (v / 100)"
      by (simp add: Some bind_err_def)
    then show ?thesis by (rule exI)
  qed
  have pc: "\<exists>v. (case re_search (lit ''Put/Call'' @ sep @ num) s of
               Some g \<Rightarrow> py_float g
             | None \<Rightarrow> Inr 1) = Inr v"
  proof (cases "re_search (lit ''Put/Call'' @ sep @ num) s")
    case None
    then show ?thesis by simp
  next
    case (Some g)
    from re_search_exact[OF Some] have "exact (group_of num) g"
      by (simp add: group_of_simps)
    from exact_num_py_float[OF this] show ?thesis by (auto simp: Some)
  qed
  from iv pc obtain v1 v2 where
    "(case re_search (lit ''IV'' @ sep @ num @ [(Ch CHR ''%'', Opt, False)]) s of
               Some g \<Rightarrow> bind_err (py_float g) (\<lambda>v. Inr (v / 100))
             | None \<Rightarrow> Inr 0) = Inr v1"
    "(case re_search (lit ''Put/Call'' @ sep @ num) s of
               Some g \<Rightarrow> py_float g
             | None \<Rightarrow> Inr 1) = Inr v2" by blast
  then show ?thesis
    unfolding extract_options_features_def by (simp add: fs bind_err_def)
qed

lemma extract_all_total:
  assumes "reports_are_text st"
  shows "\<exists>fs. extract_all feature_extractors st = Inr fs \<and> length fs = 28"
proof -
  from assms obtain s1 s2 s3 s4 s5 where r:
    "dict_get st ''market_report'' (PyStr '''') = PyStr s1"
    "dict_get st ''fundamentals_report'' (PyStr '''') = PyStr s2"
    "dict_get st ''news_report'' (PyStr '''') = PyStr s3"
    "dict_get st ''sentiment_report'' (PyStr '''') = PyStr s4"
    "dict_get st ''options_report'' (PyStr '''') = PyStr s5"
    unfolding reports_are_text_def feature_extractors_def is_text_def
    by (auto split: pyval.splits)
  obtain f1 where f1: "extract_technical_features (PyStr s1) = Inr f1" "length f1 = 9"
    using technical_total by blast
  obtain f2 where f2: "extract_fundamental_features (PyStr s2) = Inr f2" "length f2 = 6"
    using fundamental_total by blast
  obtain f3 where f3: "extract_news_features (PyStr s3) = Inr f3" "length f3 = 3"
    using news_total by blast
  obtain f4 where f4: "extract_sentiment_features (PyStr s4) = Inr f4" "length f4 = 2"
    using sentiment_total by blast
  obtain f5 where f5: "extract_options_features (PyStr s5) = Inr f5" "length f5 = 8"
    using options_total by blast
  have "extract_all feature_extractors st = Inr (f1 @ f2 @ f3 @ f4 @ f5)"
    unfolding feature_extractors_def
    by (simp add: r f1 f2 f3 f4 f5 bind_err_def)
  then show ?thesis by (simp add: f1 f2 f3 f4 f5)
qed

section \<open>Evaluation on reports without text\<close>

lemma str_count_empty: "sub \<noteq> [] \<Longrightarrow> str_count [] sub = 0"
  by (subst str_count.simps) simp

lemma str_count_hit:
  "sub \<noteq> [] \<Longrightarrow> s \<noteq> [] \<Longrightarrow> startswith s sub \<Longrightarrow>
   str_count s sub = Suc (str_count (drop (length sub) s) sub)"
  by (subst str_count.simps) simp

lemma str_count_miss:
  "sub \<noteq> [] \<Longrightarrow> s \<noteq> [] \<Longrightarrow> \<not> startswith s sub \<Longrightarrow>
   str_count s sub = str_count (tl s) sub"
  by (subst str_count.simps) simp

lemmas str_count_eval = str_count_empty str_count_hit str_count_miss

lemma technical_no_text:
  "extract_technical_features (PyStr []) = Inr [0, 0, 0, 0, 0, 0, 0, 0, 0]"
  by (simp add: bind_err_def extract_technical_features_def indicators_def
      lit_def sep_def num_def signed_num_def str_lower_def startswith_def)

lemma fundamental_no_text:
  "extract_fundamental_features (PyStr []) = Inr [0, 0, 0, 0, 0, 0]"
  by (simp add: bind_err_def extract_fundamental_features_def metrics_def
      lit_def sep_def num_def)

lemma news_no_text: "extract_news_features (PyStr []) = Inr [0, 0, 1 / 2]"
  by (simp add: extract_news_features_def str_lower_def str_count_eval startswith_def)

lemma sentiment_no_text: "extract_sentiment_features (PyStr []) = Inr [0, 1 / 2]"
  by (simp add: extract_sentiment_features_def str_lower_def startswith_def)

lemma options_no_text:
  "extract_options_features (PyStr []) = Inr [0, 0, 0, 0, 0, 0, 1, 0]"
  by (simp add: bind_err_def extract_options_features_def greeks_patterns_def
      strategy_encoding_def lit_def sep_def num_def signed_num_def str_lower_def startswith_def)

lemma extract_all_no_reports:
  "extract_all feature_extractors [] =
     Inr [0, 0, 0, 0, 0, 0, 0, 0, 0, 0, 0, 0, 0, 0, 0, 0, 0, 1 / 2, 0, 1 / 2,
          0, 0, 0, 0, 0, 0, 1, 0]"
  by (simp add: feature_extractors_def dict_get_def bind_err_def technical_no_text
      fundamental_no_text news_no_text sentiment_no_text options_no_text)

lemma encode_no_reports:
  "encode enc [] =
     Inr (pad_or_truncate (state_dim enc)
       [0, 0, 0, 0, 0, 0, 0, 0, 0, 0, 0, 0, 0, 0, 0, 0, 0, 1 / 2, 0, 1 / 2,
        0, 0, 0, 0, 0, 0, 1, 0, 0])"
  by (simp add: encode_def extract_all_no_reports bind_err_def dict_get_def)

lemma encode_no_reports_2: "encode \<lparr>state_dim = 2\<rparr> [] = Inr [0, 0]"
  by (simp add: encode_no_reports pad_or_truncate_def slice_to_def)

section \<open>ReplayBuffer: eviction\<close>

lemma drop_drop_window:
  fixes xs :: "'a list"
  shows "drop (length (drop (length xs - m) xs) + length ts - m) (drop (length xs - m) xs @ ts)
       = drop (length xs + length ts - m) (xs @ ts)"
proof (cases "length xs \<le> m")
  case True
  then show ?thesis by simp
next
  case False
  then have l: "length (drop (length xs - m) xs) = m" by simp
  show ?thesis
  proof (cases "length ts \<le> m")
    case True
    with False show ?thesis by (simp add: l add.commute)
  next
    case False
    then show ?thesis using \<open>\<not> length xs \<le> m\<close> by (simp add: l)
  qed
qed

lemma deque_append_drop:
  "length d \<le> ml \<Longrightarrow> deque_append ml d x = drop (length (d @ [x]) - ml) (d @ [x])"
  by (cases d) (auto simp: deque_append_def Let_def Suc_diff_le drop_Suc)

lemma push_all_buffer:
  "length (buffer rb) \<le> maxlen rb \<Longrightarrow>
   maxlen (push_all rb ts) = maxlen rb \<and>
   buffer (push_all rb ts) = drop (length (buffer rb) + length ts - maxlen rb) (buffer rb @ ts)"
proof (induction rb ts rule: push_all.induct)
  case (1 rb)
  then show ?case by simp
next
  case (2 rb s a r s' d ts)
  let ?rb = "push rb s a r s' d"
  let ?xs = "buffer rb @ [(s, a, r, s', d)]"
  have b: "buffer ?rb = drop (length ?xs - maxlen rb) ?xs"
    using 2(2) deque_append_drop[of "buffer rb" "maxlen rb"] by (simp add: push_def)
  have m: "maxlen ?rb = maxlen rb" by (simp add: push_def)
  have l: "length (buffer ?rb) \<le> maxlen ?rb" unfolding b m by simp
  from 2(1)[OF l] have ih:
    "maxlen (push_all ?rb ts) = maxlen rb"
    "buffer (push_all ?rb ts) = drop (length (buffer ?rb) + length ts - maxlen rb) (buffer ?rb @ ts)"
    by (simp_all add: m)
  have "buffer (push_all ?rb ts) = drop (length ?xs + length ts - maxlen rb) (?xs @ ts)"
    unfolding ih(2) b by (rule drop_drop_window)
  then show ?case using ih(1) by simp
qed

text \<open>
  C1. Starting from a freshly constructed buffer of capacity \<open>C\<close>, after any sequence of
  pushes the length never exceeds \<open>C\<close> and the buffer holds the last
  \<open>min C n\<close> transitions pushed, in push order; once more than \<open>C\<close> transitions were
  pushed the length is exactly \<open>C\<close> and the content is exactly the \<open>C\<close> most recent
  ones (the oldest are the ones dropped).
\<close>

theorem replay_buffer_keeps_most_recent:
  assumes "ReplayBuffer_init C = Inr rb"
  shows "len_buffer (push_all rb ts) \<le> nat C \<and>
         buffer (push_all rb ts) = drop (length ts - nat C) ts \<and>
         (nat C < length ts \<longrightarrow> len_buffer (push_all rb ts) = nat C)"
proof -
  from assms have rb: "maxlen rb = nat C" "buffer rb = []"
    by (auto simp: ReplayBuffer_init_def split: if_splits)
  from push_all_buffer[of rb ts] rb
  have b: "buffer (push_all rb ts) = drop (length ts - nat C) ts" by simp
  then show ?thesis by (simp add: len_buffer_def)
qed

text \<open>Capacity 3, five pushes A, B, C, D, E: the buffer holds C, D, E.\<close>

theorem replay_buffer_keeps_most_recent_witness:
  "ReplayBuffer_init 3 = Inr \<lparr>maxlen = 3, buffer = []\<rparr> \<and>
   (nat 3 < length [([1], 0, 0, [2], False), ([2], 1, 0, [3], False), ([3], 2, 1, [4], False),
       ([4], 0, 0, [5], False), ([5], 2, -1, [6], True) :: transition]) \<and>
   buffer (push_all \<lparr>maxlen = 3, buffer = []\<rparr>
     [([1], 0, 0, [2], False), ([2], 1, 0, [3], False), ([3], 2, 1, [4], False),
      ([4], 0, 0, [5], False), ([5], 2, -1, [6], True)])
     = [([3], 2, 1, [4], False), ([4], 0, 0, [5], False), ([5], 2, -1, [6], True)] \<and>
   len_buffer (push_all \<lparr>maxlen = 3, buffer = []\<rparr>
     [([1], 0, 0, [2], False), ([2], 1, 0, [3], False), ([3], 2, 1, [4], False),
      ([4], 0, 0, [5], False), ([5], 2, -1, [6], True)]) = 3"
proof -
  have i: "ReplayBuffer_init 3 = Inr \<lparr>maxlen = 3, buffer = []\<rparr>"
    by (simp add: ReplayBuffer_init_def)
  show ?thesis
    using i replay_buffer_keeps_most_recent[OF i,
      of "[([1], 0, 0, [2], False), ([2], 1, 0, [3], False), ([3], 2, 1, [4], False),
           ([4], 0, 0, [5], False), ([5], 2, -1, [6], True)]"]
    by simp
qed

section \<open>RewardCalculator: a break-even trade\<close>

text \<open>
  C9. For every entry price \<open>p > 0\<close>, a directional trade closed at its entry price, with no
  volatility supplied, is scored as a loss. The reward of a BUY or SELL trade is the base
  reward of its return \<open>pnl\<close>, times \<open>|pnl| * 10\<close>, minus the transaction cost; the base
  reward is the profit reward only for \<open>pnl > 0\<close> and the loss penalty for every
  \<open>pnl \<le> 0\<close>. At break-even \<open>pnl = 0\<close>, so the base reward taken is the loss penalty, and
  the reward is exactly \<open>- transaction_cost\<close>, for BUY and for SELL: \<open>- 0.01\<close> with the
  default calculator, not \<open>0\<close>.
\<close>

theorem break_even_trade_is_a_loss:
  assumes "p > 0"
  shows "base_reward rc ((p - p) / p) = loss_penalty rc \<and>
         (\<forall>pnl. pnl > 0 \<longrightarrow> base_reward rc pnl = profit_reward rc) \<and>
         (\<forall>pnl. pnl \<le> 0 \<longrightarrow> base_reward rc pnl = loss_penalty rc) \<and>
         (\<forall>exit_price.
            calculate_reward rc ''BUY'' p exit_price psize None =
              Inr (base_reward rc ((exit_price - p) / p) * (\<bar>(exit_price - p) / p\<bar> * 10)
                   - transaction_cost rc)) \<and>
         (\<forall>exit_price.
            calculate_reward rc ''SELL'' p exit_price psize None =
              Inr (base_reward rc ((p - exit_price) / p) * (\<bar>(p - exit_price) / p\<bar> * 10)
                   - transaction_cost rc)) \<and>
         reward_of_pnl rc 0 None = loss_penalty rc * (\<bar>0\<bar> * 10) - transaction_cost rc \<and>
         calculate_reward rc ''BUY'' p p psize None = Inr (- transaction_cost rc) \<and>
         calculate_reward rc ''SELL'' p p psize None = Inr (- transaction_cost rc) \<and>
         calculate_reward RewardCalculator_default ''BUY'' p p psize None = Inr (- (1 / 100)) \<and>
         calculate_reward RewardCalculator_default ''SELL'' p p psize None = Inr (- (1 / 100))"
  using assms
  by (simp add: calculate_reward_def reward_of_pnl_def base_reward_def py_div_def bind_err_def
      RewardCalculator_default_def)

text \<open>
  Entry price 100 with the default calculator, whose profit reward \<open>1\<close> and loss penalty
  \<open>-1\<close> differ: the base reward at break-even is \<open>-1\<close>; closing at 100 gives \<open>-0.01\<close>,
  closing a BUY at 90 gives \<open>-1.01\<close> and at 110 gives \<open>0.99\<close>.
\<close>

theorem break_even_trade_is_a_loss_witness:
  "(100 :: real) > 0 \<and>
   base_reward RewardCalculator_default ((100 - 100) / 100) = - 1 \<and>
   loss_penalty RewardCalculator_default = - 1 \<and>
   profit_reward RewardCalculator_default = 1 \<and>
   calculate_reward RewardCalculator_default ''BUY'' 100 100 1 None = Inr (- (1 / 100)) \<and>
   calculate_reward RewardCalculator_default ''SELL'' 100 100 1 None = Inr (- (1 / 100)) \<and>
   calculate_reward RewardCalculator_default ''BUY'' 100 90 1 None = Inr (- (101 / 100)) \<and>
   calculate_reward RewardCalculator_default ''BUY'' 100 110 1 None = Inr (99 / 100) \<and>
   calculate_reward RewardCalculator_default ''SELL'' 100 110 1 None = Inr (- (101 / 100))"
proof -
  have p: "(100 :: real) > 0" by simp
  note t = break_even_trade_is_a_loss[OF p, of RewardCalculator_default 1]
  have b: "base_reward RewardCalculator_default ((100 - 100) / 100) = - 1"
    using t by (simp add: RewardCalculator_default_def)
  have l: "(- (1 / 10) :: real) \<le> 0" and g: "(1 / 10 :: real) > 0" by simp_all
  from t l have bl: "base_reward RewardCalculator_default (- (1 / 10)) = - 1"
    by (simp add: RewardCalculator_default_def)
  from t g have bg: "base_reward RewardCalculator_default (1 / 10) = 1"
    by (simp add: RewardCalculator_default_def)
  from t have
    "calculate_reward RewardCalculator_default ''BUY'' 100 90 1 None =
       Inr (base_reward RewardCalculator_default ((90 - 100) / 100) * (\<bar>(90 - 100) / 100\<bar> * 10)
            - transaction_cost RewardCalculator_default)"
    "calculate_reward RewardCalculator_default ''BUY'' 100 110 1 None =
       Inr (base_reward RewardCalculator_default ((110 - 100) / 100) * (\<bar>(110 - 100) / 100\<bar> * 10)
            - transaction_cost RewardCalculator_default)"
    "calculate_reward RewardCalculator_default ''SELL'' 100 110 1 None =
       Inr (base_reward RewardCalculator_default ((100 - 110) / 100) * (\<bar>(100 - 110) / 100\<bar> * 10)
            - transaction_cost RewardCalculator_default)"
    by blast+
  with bl bg have
    "calculate_reward RewardCalculator_default ''BUY'' 100 90 1 None = Inr (- (101 / 100))"
    "calculate_reward RewardCalculator_default ''BUY'' 100 110 1 None = Inr (99 / 100)"
    "calculate_reward RewardCalculator_default ''SELL'' 100 110 1 None = Inr (- (101 / 100))"
    by (simp_all add: RewardCalculator_default_def)
  with t b show ?thesis by (simp add: RewardCalculator_default_def)
qed

section \<open>TradingEnvironment: termination tests\<close>

lemma step_finish_result:
  "step_finish env r info = (env', Inr (ns, r', d, info')) \<Longrightarrow>
   env' = env \<and> r' = r \<and> d = step_done env \<and> info' = info"
  by (auto simp: step_finish_def Let_def bind_err_def split: sum.splits)

lemma step_unchanged_fields:
  "step env a st p = (env', res) \<Longrightarrow>
   current_step env' = current_step env + 1 \<and> max_steps env' = max_steps env \<and>
   initial_capital env' = initial_capital env"
  by (auto simp: step_def step_finish_def Let_def split: sum.splits if_splits)

lemma step_result_done:
  "step env a st p = (env', Inr (ns, r, d, info)) \<Longrightarrow> d = step_done env'"
  by (auto simp: step_def Let_def split: sum.splits if_splits dest!: step_finish_result)

lemma step_options_fields:
  "step_options env a st strategy premium pnl max_loss greeks = (env', res) \<Longrightarrow>
   current_step env' = current_step env + 1 \<and> max_steps env' = max_steps env \<and>
   initial_capital env' = initial_capital env \<and> capital env' = capital env + pnl \<and>
   trade_history env' = trade_history env @
     [OptionsTrade strategy premium pnl
        (calculate_options_reward (env_reward_calculator env) (options_action_str a) strategy
           premium pnl max_loss greeks) greeks]"
  by (auto simp: step_options_def Let_def)

lemma step_options_result:
  "step_options env a st strategy premium pnl max_loss greeks = (env', Inr (ns, r, d, info)) \<Longrightarrow>
   d = options_done env' \<and>
   r = calculate_options_reward (env_reward_calculator env) (options_action_str a) strategy
         premium pnl max_loss greeks \<and>
   map_of info ''action'' = Some (PyStr (options_action_str a))"
  by (auto simp: step_options_def Let_def bind_err_def split: sum.splits)

text \<open>
  C3. Whenever \<open>step\<close> returns, its \<open>done\<close> flag is true exactly when the step counter
  (already increased by this call) has reached \<open>max_steps\<close>, or the capital after the call
  is \<open>\<le> 0\<close>, or it is \<open>\<ge> 2 * initial_capital\<close>. Whenever \<open>step_options\<close> returns, its
  flag is true exactly when the step counter has reached \<open>max_steps\<close>, or the capital after
  the call is at most half the initial capital, or at least one and a half times it.
\<close>

theorem done_exactly_at_budget_or_capital_bounds:
  "(step env a st p = (env', Inr (ns, r, d, info)) \<longrightarrow>
      (d \<longleftrightarrow> current_step env + 1 \<ge> max_steps env \<or> capital env' \<le> 0 \<or>
             capital env' \<ge> 2 * initial_capital env)) \<and>
   (step_options env a st strategy premium pnl max_loss greeks = (env', Inr (ns, r, d, info)) \<longrightarrow>
      (d \<longleftrightarrow> current_step env + 1 \<ge> max_steps env \<or>
             capital env + pnl \<le> initial_capital env / 2 \<or>
             capital env + pnl \<ge> 3 / 2 * initial_capital env))"
proof (intro conjI impI)
  assume s: "step env a st p = (env', Inr (ns, r, d, info))"
  from step_result_done[OF s] step_unchanged_fields[OF s]
  show "d \<longleftrightarrow> current_step env + 1 \<ge> max_steps env \<or> capital env' \<le> 0 \<or>
             capital env' \<ge> 2 * initial_capital env"
    by (simp add: step_done_def mult.commute)
next
  assume s: "step_options env a st strategy premium pnl max_loss greeks
               = (env', Inr (ns, r, d, info))"
  from step_options_result[OF s] step_options_fields[OF s]
  show "d \<longleftrightarrow> current_step env + 1 \<ge> max_steps env \<or>
             capital env + pnl \<le> initial_capital env / 2 \<or>
             capital env + pnl \<ge> 3 / 2 * initial_capital env"
    by (simp add: options_done_def mult.commute)
qed

theorem done_exactly_at_budget_or_capital_bounds_witness:
  "step (TradingEnvironment_init \<lparr>state_dim = 2\<rparr> RewardCalculator_default 100000 1) 1 [] 50
     = ((TradingEnvironment_init \<lparr>state_dim = 2\<rparr> RewardCalculator_default 100000 1)
          \<lparr>current_step := 1, agent_state := []\<rparr>,
        Inr ([0, 0], 0, True,
             [(''action'', PyStr ''HOLD''), (''position'', PyInt 0),
              (''capital'', PyFloat 100000), (''step'', PyInt 1)])) \<and>
   current_step (TradingEnvironment_init \<lparr>state_dim = 2\<rparr> RewardCalculator_default 100000 1) + 1
     \<ge> max_steps (TradingEnvironment_init \<lparr>state_dim = 2\<rparr> RewardCalculator_default 100000 1) \<and>
   step_options (TradingEnvironment_init \<lparr>state_dim = 2\<rparr> RewardCalculator_default 100000 10)
       1 [] ''call'' 2 60000 10 None
     = ((TradingEnvironment_init \<lparr>state_dim = 2\<rparr> RewardCalculator_default 100000 10)
          \<lparr>current_step := 1, agent_state := [], capital := 160000,
           trade_history := [OptionsTrade ''call'' 2 60000 (18002999999 / 100) None]\<rparr>,
        Inr ([0, 0], 18002999999 / 100, True,
             [(''action'', PyStr ''SELL''), (''strategy'', PyStr ''call''),
              (''capital'', PyFloat 160000), (''pnl'', PyFloat 60000), (''step'', PyInt 1)])) \<and>
   capital (TradingEnvironment_init \<lparr>state_dim = 2\<rparr> RewardCalculator_default 100000 10) + 60000
     \<ge> 3 / 2 * initial_capital
           (TradingEnvironment_init \<lparr>state_dim = 2\<rparr> RewardCalculator_default 100000 10)"
proof -
  let ?E = "TradingEnvironment_init \<lparr>state_dim = 2\<rparr> RewardCalculator_default 100000 1"
  let ?F = "TradingEnvironment_init \<lparr>state_dim = 2\<rparr> RewardCalculator_default 100000 10"
  let ?i = "[(''action'', PyStr ''HOLD''), (''position'', PyInt 0),
             (''capital'', PyFloat 100000), (''step'', PyInt 1)]"
  let ?j = "[(''action'', PyStr ''SELL''), (''strategy'', PyStr ''call''),
             (''capital'', PyFloat 160000), (''pnl'', PyFloat 60000), (''step'', PyInt 1)]"
  let ?F' = "?F\<lparr>current_step := 1, agent_state := [], capital := 160000,
           trade_history := [OptionsTrade ''call'' 2 60000 (18002999999 / 100) None]\<rparr>"
  have s: "step ?E 1 [] 50 = (?E\<lparr>current_step := 1, agent_state := []\<rparr>, Inr ([0, 0], 0, True, ?i))"
    by (simp add: step_def TradingEnvironment_init_def decode_action_def list_index_def
        step_finish_def step_done_def encode_no_reports_2 bind_err_def)
  have o: "step_options ?F 1 [] ''call'' 2 60000 10 None
             = (?F', Inr ([0, 0], 18002999999 / 100, True, ?j))"
    by (simp add: step_options_def TradingEnvironment_init_def options_action_str_def
        calculate_options_reward_def RewardCalculator_default_def options_done_def
        encode_no_reports_2 bind_err_def Let_def)
  from s done_exactly_at_budget_or_capital_bounds
         [of ?E 1 "[]" 50 "?E\<lparr>current_step := 1, agent_state := []\<rparr>" "[0, 0]" 0 True ?i]
  have a: "current_step ?E + 1 \<ge> max_steps ?E"
    by (simp add: TradingEnvironment_init_def)
  from o done_exactly_at_budget_or_capital_bounds
         [of ?F 1 "[]" _ ?F' "[0, 0]" "18002999999 / 100" True ?j "''call''" 2 60000 10 None]
  have b: "capital ?F + 60000 \<ge> 3 / 2 * initial_capital ?F"
    by (simp add: TradingEnvironment_init_def)
  from s o a b show ?thesis by simp
qed

section \<open>TradingEnvironment: options steps\<close>

text \<open>
  C10. \<open>step_options\<close> reads action index \<open>0\<close> as BUY and every other index, \<open>1\<close> (HOLD
  in stock mode) included, as SELL. There is no action without effect: every call, whether
  it then returns or raises in the encoder, increases the step counter by one, adds the
  supplied \<open>pnl\<close> to the capital and appends exactly one trade record; when it returns,
  \<open>info["action"]\<close> is that BUY or SELL.
\<close>

theorem step_options_has_no_noop:
  "options_action_str 0 = ''BUY'' \<and> options_action_str 1 = ''SELL'' \<and>
   (a \<noteq> 0 \<longrightarrow> options_action_str a = ''SELL'') \<and>
   current_step (fst (step_options env a st strategy premium pnl max_loss greeks))
     = current_step env + 1 \<and>
   capital (fst (step_options env a st strategy premium pnl max_loss greeks))
     = capital env + pnl \<and>
   trade_history (fst (step_options env a st strategy premium pnl max_loss greeks))
     = trade_history env @
       [OptionsTrade strategy premium pnl
          (calculate_options_reward (env_reward_calculator env) (options_action_str a)
             strategy premium pnl max_loss greeks) greeks] \<and>
   (\<forall>ns r d info.
      snd (step_options env a st strategy premium pnl max_loss greeks) = Inr (ns, r, d, info) \<longrightarrow>
      map_of info ''action'' = Some (PyStr (options_action_str a)))"
proof -
  obtain env' res where s:
    "step_options env a st strategy premium pnl max_loss greeks = (env', res)"
    by (cases "step_options env a st strategy premium pnl max_loss greeks")
  have "\<And>ns r d info. res = Inr (ns, r, d, info) \<Longrightarrow>
          map_of info ''action'' = Some (PyStr (options_action_str a))"
    using step_options_result[of env a st strategy premium pnl max_loss greeks env'] s by simp
  with step_options_fields[OF s] show ?thesis
    by (simp add: s options_action_str_def)
qed

theorem step_options_has_no_noop_witness:
  "(1 :: int) \<noteq> 0 \<and> options_action_str 1 = ''SELL'' \<and>
   snd (step_options (TradingEnvironment_init \<lparr>state_dim = 2\<rparr> RewardCalculator_default 100000 10)
       1 [] ''call'' 2 60000 10 None)
     = Inr ([0, 0], 18002999999 / 100, True,
            [(''action'', PyStr ''SELL''), (''strategy'', PyStr ''call''),
             (''capital'', PyFloat 160000), (''pnl'', PyFloat 60000), (''step'', PyInt 1)]) \<and>
   map_of [(''action'', PyStr ''SELL''), (''strategy'', PyStr ''call''),
           (''capital'', PyFloat 160000), (''pnl'', PyFloat 60000), (''step'', PyInt 1)]
          ''action'' = Some (PyStr (options_action_str 1)) \<and>
   current_step (fst (step_options
       (TradingEnvironment_init \<lparr>state_dim = 2\<rparr> RewardCalculator_default 100000 10)
       1 [] ''call'' 2 60000 10 None)) = 1 \<and>
   capital (fst (step_options
       (TradingEnvironment_init \<lparr>state_dim = 2\<rparr> RewardCalculator_default 100000 10)
       1 [] ''call'' 2 60000 10 None)) = 160000 \<and>
   length (trade_history (fst (step_options
       (TradingEnvironment_init \<lparr>state_dim = 2\<rparr> RewardCalculator_default 100000 10)
       1 [] ''call'' 2 60000 10 None))) = 1"
proof -
  let ?F = "TradingEnvironment_init \<lparr>state_dim = 2\<rparr> RewardCalculator_default 100000 10"
  have o: "snd (step_options ?F 1 [] ''call'' 2 60000 10 None)
     = Inr ([0, 0], 18002999999 / 100, True,
            [(''action'', PyStr ''SELL''), (''strategy'', PyStr ''call''),
             (''capital'', PyFloat 160000), (''pnl'', PyFloat 60000), (''step'', PyInt 1)])"
    by (simp add: step_options_def TradingEnvironment_init_def options_action_str_def
        calculate_options_reward_def RewardCalculator_default_def options_done_def
        encode_no_reports_2 bind_err_def Let_def)
  from o step_options_has_no_noop[of 1 ?F "[]" "''call''" 2 60000 10 None]
  show ?thesis
    by (simp add: TradingEnvironment_init_def)
qed

section \<open>TradingEnvironment: statistics of an empty history\<close>

text \<open>
  C7. On an empty trade history \<open>get_trade_statistics\<close> returns the six entries
  \<open>total_trades = 0\<close>, \<open>win_rate\<close>, \<open>avg_profit\<close>, \<open>avg_loss\<close>, \<open>total_pnl\<close> and
  \<open>sharpe_ratio\<close>, all \<open>0.0\<close>, without any division; the entries \<open>final_capital\<close> and
  \<open>return_pct\<close>, which the branch for a non-empty history returns, are missing from it, and
  \<open>render\<close>, which reads \<open>stats['return_pct']\<close>, raises \<open>KeyError\<close> on a freshly
  constructed environment.
\<close>

theorem empty_history_statistics_lack_capital_entries:
  "get_trade_statistics (TradingEnvironment_init enc rc c m) =
     Inr [(''total_trades'', PyInt 0), (''win_rate'', PyFloat 0), (''avg_profit'', PyFloat 0),
          (''avg_loss'', PyFloat 0), (''total_pnl'', PyFloat 0), (''sharpe_ratio'', PyFloat 0)] \<and>
   bind_err (get_trade_statistics (TradingEnvironment_init enc rc c m))
     (\<lambda>stats. dict_index stats ''final_capital'') = Inl KeyError \<and>
   bind_err (get_trade_statistics (TradingEnvironment_init enc rc c m))
     (\<lambda>stats. dict_index stats ''return_pct'') = Inl KeyError \<and>
   render (TradingEnvironment_init enc rc c m) ''human'' = Inl KeyError"
  by (simp add: get_trade_statistics_def TradingEnvironment_init_def render_def bind_err_def
      dict_index_def)

text \<open>
  With one trade in the history the two entries are present.
\<close>

lemma statistics_after_one_trade:
  "bind_err (get_trade_statistics
       ((TradingEnvironment_init enc rc 100000 m)
          \<lparr>capital := 110000, trade_history := [StockTrade 100 110 10000 (99 / 100)]\<rparr>))
     (\<lambda>stats. Inr (map_of stats ''final_capital'', map_of stats ''return_pct''))
   = Inr (Some (PyFloat 110000), Some (PyFloat 10))"
  by (simp add: get_trade_statistics_def TradingEnvironment_init_def bind_err_def py_div_def
      Let_def)

section \<open>StateEncoder: a report that is None\<close>

text \<open>
  C4. A report that is present in the mapping with the value \<open>None\<close> is not replaced by
  the empty text (\<open>agent_state.get(key, "")\<close> substitutes only for a missing key): the
  market, fundamentals and options extractors pass it to \<open>re.search\<close>, which raises
  \<open>TypeError\<close>, and the news and sentiment extractors call \<open>lower\<close> on it, which raises
  \<open>AttributeError\<close>. So \<open>encode\<close> raises, while a missing report and an empty text give
  the default features.
\<close>

theorem encode_raises_on_none_report:
  "encode enc [(''market_report'', PyNone)] = Inl TypeError \<and>
   encode enc [(''market_report'', PyStr ''''), (''news_report'', PyNone)] = Inl AttributeError \<and>
   encode enc [(''market_report'', PyStr '''')] = encode enc [] \<and>
   encode enc [] =
     Inr (pad_or_truncate (state_dim enc)
       [0, 0, 0, 0, 0, 0, 0, 0, 0, 0, 0, 0, 0, 0, 0, 0, 0, 1 / 2, 0, 1 / 2,
        0, 0, 0, 0, 0, 0, 1, 0, 0])"
proof -
  have 1: "encode enc [(''market_report'', PyNone)] = Inl TypeError"
    by (simp add: encode_def feature_extractors_def dict_get_def bind_err_def
        extract_technical_features_def)
  have 2: "encode enc [(''market_report'', PyStr ''''), (''news_report'', PyNone)]
             = Inl AttributeError"
    by (simp add: encode_def feature_extractors_def dict_get_def bind_err_def
        technical_no_text fundamental_no_text extract_news_features_def)
  have 3: "encode enc [(''market_report'', PyStr '''')] = encode enc []"
    by (simp add: encode_def feature_extractors_def dict_get_def)
  from 1 2 3 show ?thesis by (simp add: encode_no_reports)
qed

section \<open>RLTradingAgent: too few transitions\<close>

text \<open>
  C6. While the buffer holds fewer transitions than \<open>batch_size\<close>, \<open>train_step\<close> returns
  \<open>None\<close> and leaves the whole agent as it was (networks, optimizer, epsilon, step counter,
  buffer, losses), whatever the sampler and the gradient step would do: neither is called.
  \<open>sample\<close> itself, asked for more transitions than the buffer holds, raises \<open>ValueError\<close>
  and returns no batch.
\<close>

theorem train_step_skips_when_buffer_too_small:
  assumes "int (len_buffer (replay_buffer ag)) < batch_size ag"
  shows "train_step pick optimize ag = (ag, Inr None) \<and>
         sample pick (replay_buffer ag) (batch_size ag) = Inl ValueError"
  using assms by (simp add: train_step_def sample_def len_buffer_def)

theorem train_step_skips_when_buffer_too_small_witness:
  "int (len_buffer (replay_buffer
       (store_experience (projr (RLTradingAgent_init 2 3 (99 / 100) 1 (1 / 100) (995 / 1000)
          10 4 10 (Pair ''init'') (0 :: nat))) [1, 2] 0 0 [3, 4] False)))
     < batch_size
       (store_experience (projr (RLTradingAgent_init 2 3 (99 / 100) 1 (1 / 100) (995 / 1000)
          10 4 10 (Pair ''init'') (0 :: nat))) [1, 2] 0 0 [3, 4] False) \<and>
   train_step pick_first optimize_keep
       (store_experience (projr (RLTradingAgent_init 2 3 (99 / 100) 1 (1 / 100) (995 / 1000)
          10 4 10 (Pair ''init'') (0 :: nat))) [1, 2] 0 0 [3, 4] False)
     = (store_experience (projr (RLTradingAgent_init 2 3 (99 / 100) 1 (1 / 100) (995 / 1000)
          10 4 10 (Pair ''init'') (0 :: nat))) [1, 2] 0 0 [3, 4] False, Inr None)"
proof -
  let ?ag = "store_experience (projr (RLTradingAgent_init 2 3 (99 / 100) 1 (1 / 100) (995 / 1000)
          10 4 10 (Pair ''init'') (0 :: nat))) [1, 2] 0 0 [3, 4] False"
  have h: "int (len_buffer (replay_buffer ?ag)) < batch_size ?ag"
    by (simp add: RLTradingAgent_init_def ReplayBuffer_init_def bind_err_def
        store_experience_def push_def deque_append_def len_buffer_def)
  from h train_step_skips_when_buffer_too_small[OF h, of pick_first optimize_keep]
  show ?thesis by simp
qed

text \<open>
  With at least \<open>batch_size\<close> transitions in the buffer the step does train: the step
  counter grows by one, epsilon decays but not below \<open>epsilon_end\<close>, and the loss is returned.
\<close>

lemma train_step_with_enough_data:
  assumes "\<not> int (len_buffer (replay_buffer ag)) < batch_size ag"
    and "target_update_freq ag \<noteq> 0"
    and "sample pick (replay_buffer ag) (batch_size ag) = Inr batch"
    and "optimize (policy_net ag) (target_net ag) (optimizer ag) (gamma ag) batch = (p, opt, l)"
  shows "snd (train_step pick optimize ag) = Inr (Some l) \<and>
         training_step (fst (train_step pick optimize ag)) = training_step ag + 1 \<and>
         epsilon (fst (train_step pick optimize ag))
           = max (epsilon_end ag) (epsilon ag * epsilon_decay ag) \<and>
         policy_net (fst (train_step pick optimize ag)) = p \<and>
         losses (fst (train_step pick optimize ag)) = losses ag @ [l]"
  using assms by (simp add: train_step_def Let_def)

section \<open>StateEncoder: the length of the state vector\<close>

lemma pad_or_truncate_take:
  assumes "0 \<le> d"
  shows "pad_or_truncate d fs = take (nat d) (fs @ replicate (nat d - length fs) 0)"
    and "length (pad_or_truncate d fs) = nat d"
  using assms by (auto simp: pad_or_truncate_def slice_to_def nat_diff_distrib)

text \<open>
  Report mappings of texts. \<open>encode\<close> is a function of the encoder and the report mapping
  alone. For every mapping whose reports are texts (of any length) or absent, and every
  dimension \<open>state_dim \<ge> 0\<close>, it returns a vector of exactly \<open>state_dim\<close> values: the 28
  extracted features followed by the mode flag, padded on the right with zeros when
  \<open>state_dim\<close> exceeds 29 and cut to the first \<open>state_dim\<close> values when it is smaller.
\<close>

theorem encode_returns_state_dim_values:
  assumes "reports_are_text st" and "0 \<le> state_dim enc"
  shows "\<exists>fs v. extract_all feature_extractors st = Inr fs \<and> length fs = 28 \<and>
           encode enc st = Inr v \<and> length v = nat (state_dim enc) \<and>
           v = take (nat (state_dim enc))
                 ((fs @ [if dict_get st ''trading_mode'' (PyStr ''stock'') = PyStr ''options''
                         then 1 else 0])
                  @ replicate (nat (state_dim enc) - 29) 0)"
proof -
  from extract_all_total[OF assms(1)] obtain fs where
    fs: "extract_all feature_extractors st = Inr fs" "length fs = 28" by blast
  let ?all = "fs @ [if dict_get st ''trading_mode'' (PyStr ''stock'') = PyStr ''options''
                    then 1 else 0 :: real]"
  have e: "encode enc st = Inr (pad_or_truncate (state_dim enc) ?all)"
    by (simp add: encode_def fs bind_err_def Let_def)
  have l: "length ?all = 29" by (simp add: fs)
  from pad_or_truncate_take[OF assms(2), of ?all] l
  have "pad_or_truncate (state_dim enc) ?all
          = take (nat (state_dim enc)) (?all @ replicate (nat (state_dim enc) - 29) 0)"
       "length (pad_or_truncate (state_dim enc) ?all) = nat (state_dim enc)"
    by simp_all
  with fs e show ?thesis by simp
qed

theorem encode_returns_state_dim_values_witness:
  "reports_are_text [(''market_report'', PyStr ''RSI: 45.5 up''), (''trading_mode'', PyStr ''options'')] \<and>
   0 \<le> state_dim \<lparr>state_dim = 31\<rparr> \<and>
   encode \<lparr>state_dim = 31\<rparr>
       [(''market_report'', PyStr ''RSI: 45.5 up''), (''trading_mode'', PyStr ''options'')]
     = Inr [91 / 200, 0, 0, 0, 0, 0, 0, 0, 0, 0, 0, 0, 0, 0, 0, 0, 0, 1 / 2, 0, 1 / 2,
            0, 0, 0, 0, 0, 0, 1, 0, 1, 0, 0] \<and>
   (\<exists>fs v. extract_all feature_extractors
              [(''market_report'', PyStr ''RSI: 45.5 up''), (''trading_mode'', PyStr ''options'')]
              = Inr fs \<and> length fs = 28 \<and>
           encode \<lparr>state_dim = 31\<rparr>
              [(''market_report'', PyStr ''RSI: 45.5 up''), (''trading_mode'', PyStr ''options'')]
              = Inr v \<and> length v = 31)"
proof -
  let ?st = "[(''market_report'', PyStr ''RSI: 45.5 up''), (''trading_mode'', PyStr ''options'')]"
  have h1: "reports_are_text ?st" by code_simp
  have h2: "0 \<le> state_dim \<lparr>state_dim = 31\<rparr>" by simp
  have e: "encode \<lparr>state_dim = 31\<rparr> ?st
     = Inr [91 / 200, 0, 0, 0, 0, 0, 0, 0, 0, 0, 0, 0, 0, 0, 0, 0, 0, 1 / 2, 0, 1 / 2,
            0, 0, 0, 0, 0, 0, 1, 0, 1, 0, 0]" by code_simp
  from encode_returns_state_dim_values[OF h1 h2] obtain fs v where
    "extract_all feature_extractors ?st = Inr fs" "length fs = 28"
    "encode \<lparr>state_dim = 31\<rparr> ?st = Inr v" "length v = nat (state_dim \<lparr>state_dim = 31\<rparr>)"
    by blast
  then have "\<exists>fs v. extract_all feature_extractors ?st = Inr fs \<and> length fs = 28 \<and>
           encode \<lparr>state_dim = 31\<rparr> ?st = Inr v \<and> length v = 31" by simp
  with h1 h2 e show ?thesis by blast
qed

lemma technical_short_text:
  "extract_technical_features (PyStr ''RSI: 45.5 up'') = Inr [91 / 200, 0, 0, 0, 0, 0, 0, 0, 0]"
  by code_simp

text \<open>
  C5. \<open>encode\<close> does not return a vector of \<open>state_dim\<close> values for every report mapping:
  when a report is present with the value \<open>None\<close> it returns no vector at all, for every
  \<open>state_dim\<close>. With a market report of text and an options report that is \<open>None\<close> the
  options extractor raises \<open>TypeError\<close>; with a sentiment report that is \<open>None\<close> the
  sentiment extractor raises \<open>AttributeError\<close>. The same mappings with the \<open>None\<close> entry
  left out are encoded to \<open>state_dim\<close> values.
\<close>

theorem encode_returns_no_vector_for_none_report:
  "encode enc [(''market_report'', PyStr ''RSI: 45.5 up''), (''options_report'', PyNone)]
     = Inl TypeError \<and>
   encode enc [(''sentiment_report'', PyNone), (''trading_mode'', PyStr ''options'')]
     = Inl AttributeError \<and>
   encode enc [(''market_report'', PyStr ''RSI: 45.5 up'')]
     = Inr (pad_or_truncate (state_dim enc)
         [91 / 200, 0, 0, 0, 0, 0, 0, 0, 0, 0, 0, 0, 0, 0, 0, 0, 0, 1 / 2, 0, 1 / 2,
          0, 0, 0, 0, 0, 0, 1, 0, 0]) \<and>
   encode enc [(''trading_mode'', PyStr ''options'')]
     = Inr (pad_or_truncate (state_dim enc)
         [0, 0, 0, 0, 0, 0, 0, 0, 0, 0, 0, 0, 0, 0, 0, 0, 0, 1 / 2, 0, 1 / 2,
          0, 0, 0, 0, 0, 0, 1, 0, 1])"
proof -
  have 1: "encode enc [(''market_report'', PyStr ''RSI: 45.5 up''), (''options_report'', PyNone)]
             = Inl TypeError"
    by (simp add: encode_def feature_extractors_def dict_get_def bind_err_def
        technical_short_text fundamental_no_text news_no_text sentiment_no_text
        extract_options_features_def)
  have 2: "encode enc [(''sentiment_report'', PyNone), (''trading_mode'', PyStr ''options'')]
             = Inl AttributeError"
    by (simp add: encode_def feature_extractors_def dict_get_def bind_err_def
        technical_no_text fundamental_no_text news_no_text extract_sentiment_features_def)
  have 3: "encode enc [(''market_report'', PyStr ''RSI: 45.5 up'')]
     = Inr (pad_or_truncate (state_dim enc)
         [91 / 200, 0, 0, 0, 0, 0, 0, 0, 0, 0, 0, 0, 0, 0, 0, 0, 0, 1 / 2, 0, 1 / 2,
          0, 0, 0, 0, 0, 0, 1, 0, 0])"
    by (simp add: encode_def feature_extractors_def dict_get_def bind_err_def
        technical_short_text fundamental_no_text news_no_text sentiment_no_text
        options_no_text)
  have 4: "encode enc [(''trading_mode'', PyStr ''options'')]
     = Inr (pad_or_truncate (state_dim enc)
         [0, 0, 0, 0, 0, 0, 0, 0, 0, 0, 0, 0, 0, 0, 0, 0, 0, 1 / 2, 0, 1 / 2,
          0, 0, 0, 0, 0, 0, 1, 0, 1])"
    by (simp add: encode_def feature_extractors_def dict_get_def bind_err_def
        technical_no_text fundamental_no_text news_no_text sentiment_no_text
        options_no_text)
  from 1 2 3 4 show ?thesis by simp
qed

section \<open>TradingEnvironment: opening and closing a long position\<close>

lemma encode_total:
  "reports_are_text st \<Longrightarrow> \<exists>v. encode enc st = Inr v"
  using extract_all_total[of st] by (auto simp: encode_def bind_err_def Let_def)

lemma step_buy_when_flat:
  assumes "action_space_n env = 3" "position env = 0" "reports_are_text st"
  shows "\<exists>ns d info.
           step env 0 st p =
             (env\<lparr>current_step := current_step env + 1, agent_state := st,
                  position := 1, entry_price := p\<rparr>,
              Inr (ns, 0, d, info))"
proof -
  let ?e = "env\<lparr>current_step := current_step env + 1, agent_state := st,
                 position := 1, entry_price := p\<rparr>"
  from encode_total[OF assms(3)] obtain v where v: "encode (env_encoder env) st = Inr v"
    by blast
  have "step env 0 st p =
          (?e, Inr (v, 0, step_done ?e,
             [(''action'', PyStr ''BUY''), (''position'', PyInt 0),
              (''capital'', PyFloat (capital env)), (''step'', PyInt (current_step env + 1)),
              (''entry_price'', PyFloat p)]))"
    using assms(1,2)
    by (simp add: step_def decode_action_def list_index_def step_finish_def v bind_err_def
        Let_def)
  then show ?thesis by blast
qed

lemma step_sell_when_long:
  assumes "action_space_n env = 3" "position env = 1" "entry_price env \<noteq> 0"
    "reports_are_text st"
  shows "\<exists>ns d info.
           step env 2 st p =
             (env\<lparr>current_step := current_step env + 1, agent_state := st,
                  capital := capital env + (p - entry_price env) / entry_price env * capital env,
                  trade_history := trade_history env @
                    [StockTrade (entry_price env) p
                       ((p - entry_price env) / entry_price env * capital env)
                       (reward_of_pnl (env_reward_calculator env)
                          ((p - entry_price env) / entry_price env) None)],
                  position := 0, entry_price := 0\<rparr>,
              Inr (ns,
                   reward_of_pnl (env_reward_calculator env)
                     ((p - entry_price env) / entry_price env) None,
                   d, info))"
proof -
  let ?pnl = "(p - entry_price env) / entry_price env * capital env"
  let ?r = "reward_of_pnl (env_reward_calculator env) ((p - entry_price env) / entry_price env) None"
  let ?e = "env\<lparr>current_step := current_step env + 1, agent_state := st,
                  capital := capital env + ?pnl,
                  trade_history := trade_history env @ [StockTrade (entry_price env) p ?pnl ?r],
                  position := 0, entry_price := 0\<rparr>"
  from encode_total[OF assms(4)] obtain v where v: "encode (env_encoder env) st = Inr v"
    by blast
  have "step env 2 st p =
          (?e, Inr (v, ?r, step_done ?e,
             [(''action'', PyStr ''SELL''), (''position'', PyInt 1),
              (''capital'', PyFloat (capital env)), (''step'', PyInt (current_step env + 1)),
              (''exit_price'', PyFloat p), (''pnl'', PyFloat ?pnl),
              (''trade_result'', PyStr (if ?pnl > 0 then ''profit'' else ''loss''))]))"
    using assms(1,2,3)
    by (simp add: step_def decode_action_def list_index_def step_finish_def v bind_err_def
        calculate_reward_def py_div_def Let_def)
  then show ?thesis by blast
qed

lemma reset_fields:
  "current_step (fst (reset env s0)) = 0 \<and>
   capital (fst (reset env s0)) = initial_capital env \<and>
   position (fst (reset env s0)) = 0 \<and> entry_price (fst (reset env s0)) = 0 \<and>
   trade_history (fst (reset env s0)) = [] \<and>
   action_space_n (fst (reset env s0)) = action_space_n env \<and>
   env_reward_calculator (fst (reset env s0)) = env_reward_calculator env \<and>
   initial_capital (fst (reset env s0)) = initial_capital env"
  by (simp add: reset_def Let_def split: option.splits)

text \<open>
  C2. Stock mode, initial capital 100000, default reward calculator, report mappings of
  texts. After \<open>reset\<close> the position is flat with capital 100000 and no trades. Then
  \<open>step(BUY, _, 100)\<close> returns reward exactly \<open>0\<close> and leaves a long position with entry
  price 100; then \<open>step(SELL, _, 110)\<close> returns the positive reward \<open>0.99\<close>, sets the capital
  to \<open>100000 + ((110 - 100) / 100) * 100000 = 110000\<close>, leaves exactly one trade record and a
  flat position.
\<close>

theorem buy_at_100_sell_at_110:
  assumes "initial_capital env = 100000"
    and "env_reward_calculator env = RewardCalculator_default"
    and "action_space_n env = 3"
    and "reports_are_text s1" and "reports_are_text s2"
  shows "position (fst (reset env s0)) = 0 \<and> capital (fst (reset env s0)) = 100000 \<and>
         trade_history (fst (reset env s0)) = [] \<and>
         (\<exists>ns d info. snd (step (fst (reset env s0)) 0 s1 100) = Inr (ns, 0, d, info)) \<and>
         position (fst (step (fst (reset env s0)) 0 s1 100)) = 1 \<and>
         entry_price (fst (step (fst (reset env s0)) 0 s1 100)) = 100 \<and>
         (\<exists>ns d info.
            snd (step (fst (step (fst (reset env s0)) 0 s1 100)) 2 s2 110)
              = Inr (ns, 99 / 100, d, info)) \<and>
         (0 :: real) < 99 / 100 \<and>
         capital (fst (step (fst (step (fst (reset env s0)) 0 s1 100)) 2 s2 110))
           = 100000 + ((110 - 100) / 100) * 100000 \<and>
         capital (fst (step (fst (step (fst (reset env s0)) 0 s1 100)) 2 s2 110)) = 110000 \<and>
         trade_history (fst (step (fst (step (fst (reset env s0)) 0 s1 100)) 2 s2 110))
           = [StockTrade 100 110 10000 (99 / 100)] \<and>
         position (fst (step (fst (step (fst (reset env s0)) 0 s1 100)) 2 s2 110)) = 0"
proof -
  let ?e1 = "fst (reset env s0)"
  note r = reset_fields[of env s0]
  from r assms have e1: "action_space_n ?e1 = 3" "position ?e1 = 0" by simp_all
  let ?e2 = "?e1\<lparr>current_step := current_step ?e1 + 1, agent_state := s1,
                    position := 1, entry_price := 100\<rparr>"
  from step_buy_when_flat[OF e1 assms(4), of 100] obtain ns1 d1 i1 where
    b: "step ?e1 0 s1 100 = (?e2, Inr (ns1, 0, d1, i1))" by blast
  have e2: "action_space_n ?e2 = 3" "position ?e2 = 1" "entry_price ?e2 \<noteq> 0"
    using e1 by simp_all
  from step_sell_when_long[OF e2 assms(5), of 110] obtain ns2 d2 i2 where
    s: "step ?e2 2 s2 110 =
         (?e2\<lparr>current_step := current_step ?e2 + 1, agent_state := s2,
               capital := capital ?e2 + (110 - entry_price ?e2) / entry_price ?e2 * capital ?e2,
               trade_history := trade_history ?e2 @
                 [StockTrade (entry_price ?e2) 110
                    ((110 - entry_price ?e2) / entry_price ?e2 * capital ?e2)
                    (reward_of_pnl (env_reward_calculator ?e2)
                       ((110 - entry_price ?e2) / entry_price ?e2) None)],
               position := 0, entry_price := 0\<rparr>,
          Inr (ns2,
               reward_of_pnl (env_reward_calculator ?e2)
                 ((110 - entry_price ?e2) / entry_price ?e2) None,
               d2, i2))" by blast
  have rw: "reward_of_pnl (env_reward_calculator ?e2) ((110 - entry_price ?e2) / entry_price ?e2) None
              = 99 / 100"
    using r assms(2)
    by (simp add: reward_of_pnl_def base_reward_def RewardCalculator_default_def)
  have c: "capital ?e2 = 100000" "trade_history ?e2 = []" using r assms(1) by simp_all
  show ?thesis
    unfolding b fst_conv snd_conv s rw
    using r assms(1) c by simp
qed

theorem buy_at_100_sell_at_110_witness:
  "initial_capital (TradingEnvironment_init \<lparr>state_dim = 2\<rparr> RewardCalculator_default 100000 1000)
     = 100000 \<and>
   env_reward_calculator
     (TradingEnvironment_init \<lparr>state_dim = 2\<rparr> RewardCalculator_default 100000 1000)
     = RewardCalculator_default \<and>
   action_space_n (TradingEnvironment_init \<lparr>state_dim = 2\<rparr> RewardCalculator_default 100000 1000)
     = 3 \<and>
   reports_are_text [] \<and>
   snd (step (fst (reset
         (TradingEnvironment_init \<lparr>state_dim = 2\<rparr> RewardCalculator_default 100000 1000) None))
       0 [] 100)
     = Inr ([0, 0], 0, False,
            [(''action'', PyStr ''BUY''), (''position'', PyInt 0), (''capital'', PyFloat 100000),
             (''step'', PyInt 1), (''entry_price'', PyFloat 100)]) \<and>
   capital (fst (step (fst (step (fst (reset
         (TradingEnvironment_init \<lparr>state_dim = 2\<rparr> RewardCalculator_default 100000 1000) None))
       0 [] 100)) 2 [] 110)) = 110000 \<and>
   trade_history (fst (step (fst (step (fst (reset
         (TradingEnvironment_init \<lparr>state_dim = 2\<rparr> RewardCalculator_default 100000 1000) None))
       0 [] 100)) 2 [] 110)) = [StockTrade 100 110 10000 (99 / 100)] \<and>
   position (fst (step (fst (step (fst (reset
         (TradingEnvironment_init \<lparr>state_dim = 2\<rparr> RewardCalculator_default 100000 1000) None))
       0 [] 100)) 2 [] 110)) = 0"
proof -
  let ?E = "TradingEnvironment_init \<lparr>state_dim = 2\<rparr> RewardCalculator_default 100000 1000"
  have h: "initial_capital ?E = 100000" "env_reward_calculator ?E = RewardCalculator_default"
    "action_space_n ?E = 3"
    by (simp_all add: TradingEnvironment_init_def)
  have t: "reports_are_text []"
    by (simp add: reports_are_text_def feature_extractors_def dict_get_def is_text_def)
  have b: "snd (step (fst (reset ?E None)) 0 [] 100)
     = Inr ([0, 0], 0, False,
            [(''action'', PyStr ''BUY''), (''position'', PyInt 0), (''capital'', PyFloat 100000),
             (''step'', PyInt 1), (''entry_price'', PyFloat 100)])"
    by (simp add: reset_def step_def TradingEnvironment_init_def decode_action_def
        list_index_def step_finish_def step_done_def encode_no_reports_2 bind_err_def Let_def)
  from buy_at_100_sell_at_110[OF h t t, of None] h t b show ?thesis by simp
qed

section \<open>RLTradingAgent: loading an artifact of other dimensions\<close>

lemma map_of_shapes_of: "map_of (shapes_of sd) k = map_option fst (map_of sd k)"
  by (induction sd) (auto simp: shapes_of_def)

lemma load_params_ok:
  "snd (load_params net sd) \<Longrightarrow> (k, shape) \<in> set (shapes_of net) \<Longrightarrow>
   map_of (shapes_of sd) k = Some shape"
proof (induction net)
  case Nil
  then show ?case by (simp add: shapes_of_def)
next
  case (Cons p net)
  obtain k' shape' w' where p: "p = (k', (shape', w'))" by (cases p) auto
  obtain rest ok where r: "load_params net sd = (rest, ok)" by (cases "load_params net sd")
  from Cons.prems(1) have ok: "ok" and m: "map_option fst (map_of sd k') = Some shape'"
    by (auto simp: p r split: option.splits if_splits)
  from Cons.prems(2) have "(k = k' \<and> shape = shape') \<or> (k, shape) \<in> set (shapes_of net)"
    by (auto simp: p shapes_of_def)
  then show ?case
  proof
    assume "k = k' \<and> shape = shape'"
    with m show ?thesis by (simp add: map_of_shapes_of)
  next
    assume "(k, shape) \<in> set (shapes_of net)"
    with Cons.IH ok r show ?thesis by simp
  qed
qed

lemma load_params_shapes: "shapes_of (fst (load_params net sd)) = shapes_of net"
  by (induction net) (auto simp: shapes_of_def split: prod.splits option.splits)

lemma load_state_dict_mismatch:
  assumes "shapes_of net = DQN_shapes sd ad" and "shapes_of saved = DQN_shapes sd' ad'"
    and "sd \<noteq> sd' \<or> ad \<noteq> ad'"
  shows "snd (load_state_dict net saved) = Some RuntimeError"
proof -
  have "\<not> snd (load_params net saved)"
  proof
    assume ok: "snd (load_params net saved)"
    have "(''network.0.weight'', [256, sd]) \<in> set (shapes_of net)"
      and "(''network.9.bias'', [ad]) \<in> set (shapes_of net)"
      by (simp_all add: assms(1) DQN_shapes_def)
    from load_params_ok[OF ok this(1)] load_params_ok[OF ok this(2)]
    have "sd = sd'" "ad = ad'" by (simp_all add: assms(2) DQN_shapes_def)
    with assms(3) show False by simp
  qed
  then obtain net' where "load_params net saved = (net', False)"
    by (cases "load_params net saved") auto
  then show ?thesis
    by (simp add: load_state_dict_def)
qed

text \<open>
  C8. \<open>load_model\<close> makes no dimension check of its own; the artifact is applied in the
  order policy network, target network, optimizer, epsilon, step counter. For an artifact
  saved with another \<open>state_dim\<close> or \<open>action_dim\<close>, the first call
  (\<open>policy_net.load_state_dict\<close>) raises the library's \<open>RuntimeError\<close>, which reaches
  the caller, and the target network, the optimizer state, epsilon, the step counter, the
  episode rewards and the buffer are left as they were; the policy network keeps the names
  and shapes of its parameters.
\<close>

theorem load_model_of_other_dimensions_raises:
  assumes "shapes_of (policy_net ag) = DQN_shapes sd ad"
    and "shapes_of (policy_net_state_dict checkpoint) = DQN_shapes sd' ad'"
    and "sd \<noteq> sd' \<or> ad \<noteq> ad'"
  shows "snd (load_model load_opt ag checkpoint) = Some RuntimeError \<and>
         target_net (fst (load_model load_opt ag checkpoint)) = target_net ag \<and>
         optimizer (fst (load_model load_opt ag checkpoint)) = optimizer ag \<and>
         epsilon (fst (load_model load_opt ag checkpoint)) = epsilon ag \<and>
         training_step (fst (load_model load_opt ag checkpoint)) = training_step ag \<and>
         episode_rewards (fst (load_model load_opt ag checkpoint)) = episode_rewards ag \<and>
         replay_buffer (fst (load_model load_opt ag checkpoint)) = replay_buffer ag \<and>
         shapes_of (policy_net (fst (load_model load_opt ag checkpoint)))
           = shapes_of (policy_net ag)"
proof -
  obtain p e where l:
    "load_state_dict (policy_net ag) (policy_net_state_dict checkpoint) = (p, e)"
    by (cases "load_state_dict (policy_net ag) (policy_net_state_dict checkpoint)")
  from load_state_dict_mismatch[OF assms] l have e: "e = Some RuntimeError" by simp
  have "p = fst (load_params (policy_net ag) (policy_net_state_dict checkpoint))"
    using l by (auto simp: load_state_dict_def split: prod.splits if_splits)
  then have "shapes_of p = shapes_of (policy_net ag)" by (simp add: load_params_shapes)
  then show ?thesis by (simp add: load_model_def l e)
qed

text \<open>
  An agent built for \<open>state_dim = 2\<close>, \<open>action_dim = 3\<close> loads the artifact of an agent
  built for \<open>state_dim = 3\<close>, and the artifact of one built for \<open>action_dim = 4\<close>. Both
  calls raise, and after each the policy network is no longer the one the agent had: the
  parameters whose shapes agree with the artifact hold the contents of the artifact.
\<close>

theorem load_model_partial_load_counterexample:
  "snd (load_model load_opt_ok
          (projr (RLTradingAgent_init 2 3 (99 / 100) 1 (1 / 100) (995 / 1000) 10 4 10
                    (Pair ''fresh'') (0 :: nat)))
          (save_model (projr (RLTradingAgent_init 3 3 (99 / 100) 1 (1 / 100) (995 / 1000) 10 4 10
                    (Pair ''trained'') (7 :: nat)))))
     = Some RuntimeError \<and>
   policy_net (fst (load_model load_opt_ok
          (projr (RLTradingAgent_init 2 3 (99 / 100) 1 (1 / 100) (995 / 1000) 10 4 10
                    (Pair ''fresh'') (0 :: nat)))
          (save_model (projr (RLTradingAgent_init 3 3 (99 / 100) 1 (1 / 100) (995 / 1000) 10 4 10
                    (Pair ''trained'') (7 :: nat))))))
     = [(''network.0.weight'', [256, 2], (''fresh'', ''network.0.weight'')),
        (''network.0.bias'', [256], (''trained'', ''network.0.bias'')),
        (''network.3.weight'', [128, 256], (''trained'', ''network.3.weight'')),
        (''network.3.bias'', [128], (''trained'', ''network.3.bias'')),
        (''network.6.weight'', [64, 128], (''trained'', ''network.6.weight'')),
        (''network.6.bias'', [64], (''trained'', ''network.6.bias'')),
        (''network.9.weight'', [3, 64], (''trained'', ''network.9.weight'')),
        (''network.9.bias'', [3], (''trained'', ''network.9.bias''))] \<and>
   policy_net (fst (load_model load_opt_ok
          (projr (RLTradingAgent_init 2 3 (99 / 100) 1 (1 / 100) (995 / 1000) 10 4 10
                    (Pair ''fresh'') (0 :: nat)))
          (save_model (projr (RLTradingAgent_init 3 3 (99 / 100) 1 (1 / 100) (995 / 1000) 10 4 10
                    (Pair ''trained'') (7 :: nat))))))
     \<noteq> policy_net (projr (RLTradingAgent_init 2 3 (99 / 100) 1 (1 / 100) (995 / 1000) 10 4 10
                    (Pair ''fresh'') (0 :: nat))) \<and>
   snd (load_model load_opt_ok
          (projr (RLTradingAgent_init 2 3 (99 / 100) 1 (1 / 100) (995 / 1000) 10 4 10
                    (Pair ''fresh'') (0 :: nat)))
          (save_model (projr (RLTradingAgent_init 2 4 (99 / 100) 1 (1 / 100) (995 / 1000) 10 4 10
                    (Pair ''trained'') (7 :: nat)))))
     = Some RuntimeError \<and>
   policy_net (fst (load_model load_opt_ok
          (projr (RLTradingAgent_init 2 3 (99 / 100) 1 (1 / 100) (995 / 1000) 10 4 10
                    (Pair ''fresh'') (0 :: nat)))
          (save_model (projr (RLTradingAgent_init 2 4 (99 / 100) 1 (1 / 100) (995 / 1000) 10 4 10
                    (Pair ''trained'') (7 :: nat))))))
     = [(''network.0.weight'', [256, 2], (''trained'', ''network.0.weight'')),
        (''network.0.bias'', [256], (''trained'', ''network.0.bias'')),
        (''network.3.weight'', [128, 256], (''trained'', ''network.3.weight'')),
        (''network.3.bias'', [128], (''trained'', ''network.3.bias'')),
        (''network.6.weight'', [64, 128], (''trained'', ''network.6.weight'')),
        (''network.6.bias'', [64], (''trained'', ''network.6.bias'')),
        (''network.9.weight'', [3, 64], (''fresh'', ''network.9.weight'')),
        (''network.9.bias'', [3], (''fresh'', ''network.9.bias''))] \<and>
   policy_net (fst (load_model load_opt_ok
          (projr (RLTradingAgent_init 2 3 (99 / 100) 1 (1 / 100) (995 / 1000) 10 4 10
                    (Pair ''fresh'') (0 :: nat)))
          (save_model (projr (RLTradingAgent_init 2 4 (99 / 100) 1 (1 / 100) (995 / 1000) 10 4 10
                    (Pair ''trained'') (7 :: nat))))))
     \<noteq> policy_net (projr (RLTradingAgent_init 2 3 (99 / 100) 1 (1 / 100) (995 / 1000) 10 4 10
                    (Pair ''fresh'') (0 :: nat)))"
  by (simp add: RLTradingAgent_init_def ReplayBuffer_init_def bind_err_def save_model_def
      load_model_def load_state_dict_def DQN_init_def DQN_shapes_def)

theorem load_model_of_other_dimensions_raises_witness:
  "shapes_of (policy_net (projr (RLTradingAgent_init 2 3 (99 / 100) 1 (1 / 100) (995 / 1000)
       10 4 10 (Pair ''fresh'') (0 :: nat)))) = DQN_shapes 2 3 \<and>
   shapes_of (policy_net_state_dict (save_model (projr (RLTradingAgent_init 3 3 (99 / 100) 1
       (1 / 100) (995 / 1000) 10 4 10 (Pair ''trained'') (7 :: nat))))) = DQN_shapes 3 3 \<and>
   shapes_of (policy_net_state_dict (save_model (projr (RLTradingAgent_init 2 4 (99 / 100) 1
       (1 / 100) (995 / 1000) 10 4 10 (Pair ''trained'') (7 :: nat))))) = DQN_shapes 2 4 \<and>
   (2 :: nat) \<noteq> 3 \<and> (3 :: nat) \<noteq> 4 \<and>
   snd (load_model load_opt_ok
          (projr (RLTradingAgent_init 2 3 (99 / 100) 1 (1 / 100) (995 / 1000) 10 4 10
                    (Pair ''fresh'') (0 :: nat)))
          (save_model (projr (RLTradingAgent_init 3 3 (99 / 100) 1 (1 / 100) (995 / 1000) 10 4 10
                    (Pair ''trained'') (7 :: nat)))))
     = Some RuntimeError \<and>
   epsilon (fst (load_model load_opt_ok
          (projr (RLTradingAgent_init 2 3 (99 / 100) 1 (1 / 100) (995 / 1000) 10 4 10
                    (Pair ''fresh'') (0 :: nat)))
          (save_model (projr (RLTradingAgent_init 3 3 (99 / 100) 1 (1 / 100) (995 / 1000) 10 4 10
                    (Pair ''trained'') (7 :: nat)))))) = 1 \<and>
   snd (load_model load_opt_ok
          (projr (RLTradingAgent_init 2 3 (99 / 100) 1 (1 / 100) (995 / 1000) 10 4 10
                    (Pair ''fresh'') (0 :: nat)))
          (save_model (projr (RLTradingAgent_init 2 4 (99 / 100) 1 (1 / 100) (995 / 1000) 10 4 10
                    (Pair ''trained'') (7 :: nat)))))
     = Some RuntimeError \<and>
   training_step (fst (load_model load_opt_ok
          (projr (RLTradingAgent_init 2 3 (99 / 100) 1 (1 / 100) (995 / 1000) 10 4 10
                    (Pair ''fresh'') (0 :: nat)))
          (save_model (projr (RLTradingAgent_init 2 4 (99 / 100) 1 (1 / 100) (995 / 1000) 10 4 10
                    (Pair ''trained'') (7 :: nat)))))) = 0"
proof -
  let ?A = "projr (RLTradingAgent_init 2 3 (99 / 100) 1 (1 / 100) (995 / 1000) 10 4 10
                    (Pair ''fresh'') (0 :: nat))"
  let ?B = "projr (RLTradingAgent_init 3 3 (99 / 100) 1 (1 / 100) (995 / 1000) 10 4 10
                    (Pair ''trained'') (7 :: nat))"
  let ?C = "projr (RLTradingAgent_init 2 4 (99 / 100) 1 (1 / 100) (995 / 1000) 10 4 10
                    (Pair ''trained'') (7 :: nat))"
  have a: "shapes_of (policy_net ?A) = DQN_shapes 2 3"
    by (simp add: RLTradingAgent_init_def ReplayBuffer_init_def bind_err_def DQN_init_def
        DQN_shapes_def shapes_of_def)
  have b: "shapes_of (policy_net_state_dict (save_model ?B)) = DQN_shapes 3 3"
    by (simp add: RLTradingAgent_init_def ReplayBuffer_init_def bind_err_def DQN_init_def
        DQN_shapes_def shapes_of_def save_model_def)
  have c: "shapes_of (policy_net_state_dict (save_model ?C)) = DQN_shapes 2 4"
    by (simp add: RLTradingAgent_init_def ReplayBuffer_init_def bind_err_def DQN_init_def
        DQN_shapes_def shapes_of_def save_model_def)
  have n1: "(2 :: nat) \<noteq> 3 \<or> (3 :: nat) \<noteq> 3" and n2: "(2 :: nat) \<noteq> 2 \<or> (3 :: nat) \<noteq> 4"
    by simp_all
  have d: "epsilon ?A = 1" "training_step ?A = 0"
    by (simp_all add: RLTradingAgent_init_def ReplayBuffer_init_def bind_err_def)
  from load_model_of_other_dimensions_raises[OF a b n1, of load_opt_ok]
       load_model_of_other_dimensions_raises[OF a c n2, of load_opt_ok] a b c d
  show ?thesis by simp
qed

text \<open>
  What the failed call leaves in the policy network. In the model of the library's
  \<open>load_state_dict\<close>, every parameter whose saved entry has the same shape holds the saved
  contents after the call, and every other parameter keeps its own; with another
  \<open>state_dim\<close> or \<open>action_dim\<close> this is the network \<open>load_model\<close> leaves behind when it
  raises. The callers do not reckon with it: \<open>rl_enhanced_example.py\<close> catches the
  exception and goes on with what it calls the untrained model.
\<close>

lemma load_params_contents:
  "map_of (fst (load_params net saved)) k =
     (case map_of net k of
        None \<Rightarrow> None
      | Some (shape, w) \<Rightarrow>
          (case map_of saved k of
             None \<Rightarrow> Some (shape, w)
           | Some (shape', w') \<Rightarrow> if shape' = shape then Some (shape, w') else Some (shape, w)))"
  by (induction net) (auto split: prod.splits option.splits)

lemma failed_load_leaves_partial_policy_net:
  assumes "shapes_of (policy_net ag) = DQN_shapes sd ad"
    and "shapes_of (policy_net_state_dict checkpoint) = DQN_shapes sd' ad'"
    and "sd \<noteq> sd' \<or> ad \<noteq> ad'"
  shows "policy_net (fst (load_model load_opt ag checkpoint))
           = fst (load_params (policy_net ag) (policy_net_state_dict checkpoint))"
proof -
  obtain p e where l:
    "load_state_dict (policy_net ag) (policy_net_state_dict checkpoint) = (p, e)"
    by (cases "load_state_dict (policy_net ag) (policy_net_state_dict checkpoint)")
  from load_state_dict_mismatch[OF assms] l have e: "e = Some RuntimeError" by simp
  have "p = fst (load_params (policy_net ag) (policy_net_state_dict checkpoint))"
    using l by (auto simp: load_state_dict_def split: prod.splits if_splits)
  then show ?thesis by (simp add: load_model_def l e)
qed

end
